theory Spec2Isabelle
  imports Complex_Main
begin

section \<open>Numbers\<close>

text \<open>
  Every quantity of the finance module is a JavaScript \<open>number\<close>. A number is modelled
  as a finite real value or one of the three special values \<open>Infinity\<close>, \<open>-Infinity\<close>
  and \<open>NaN\<close>. Arithmetic on finite values is exact: the rounding of a result to a
  double, the overflow of a finite result to an infinity and the sign of zero are not
  modelled (a zero divisor is read as \<open>+0\<close>). The special values follow IEEE 754: a
  division by zero gives an infinity or \<open>NaN\<close>, the special values propagate through
  the operations, every comparison with \<open>NaN\<close> is false, and \<open>Math.max\<close> and
  \<open>Math.min\<close> return \<open>NaN\<close> when an argument is \<open>NaN\<close>.

  Loop counters and the month counts \<open>months\<close> and \<open>maxMonths\<close> (whole numbers in
  every caller, which rounds them with \<open>Math.round\<close>) are integers.
\<close>

datatype number = Fin real | PInf | NInf | NaN

fun isFinite :: "number \<Rightarrow> bool" where
  "isFinite (Fin x) = True"
| "isFinite PInf = False"
| "isFinite NInf = False"
| "isFinite NaN = False"

fun jneg :: "number \<Rightarrow> number" where
  "jneg (Fin a) = Fin (- a)"
| "jneg PInf = NInf"
| "jneg NInf = PInf"
| "jneg NaN = NaN"

fun jadd :: "number \<Rightarrow> number \<Rightarrow> number" where
  "jadd (Fin a) (Fin b) = Fin (a + b)"
| "jadd (Fin a) PInf = PInf"
| "jadd (Fin a) NInf = NInf"
| "jadd PInf (Fin b) = PInf"
| "jadd PInf PInf = PInf"
| "jadd PInf NInf = NaN"
| "jadd NInf (Fin b) = NInf"
| "jadd NInf PInf = NaN"
| "jadd NInf NInf = NInf"
| "jadd NaN y = NaN"
| "jadd x NaN = NaN"

definition jsub :: "number \<Rightarrow> number \<Rightarrow> number" where
  "jsub x y = jadd x (jneg y)"

fun jmul :: "number \<Rightarrow> number \<Rightarrow> number" where
  "jmul (Fin a) (Fin b) = Fin (a * b)"
| "jmul (Fin a) PInf = (if a = 0 then NaN else if 0 < a then PInf else NInf)"
| "jmul (Fin a) NInf = (if a = 0 then NaN else if 0 < a then NInf else PInf)"
| "jmul PInf (Fin b) = (if b = 0 then NaN else if 0 < b then PInf else NInf)"
| "jmul NInf (Fin b) = (if b = 0 then NaN else if 0 < b then NInf else PInf)"
| "jmul PInf PInf = PInf"
| "jmul PInf NInf = NInf"
| "jmul NInf PInf = NInf"
| "jmul NInf NInf = PInf"
| "jmul NaN y = NaN"
| "jmul x NaN = NaN"

fun jdiv :: "number \<Rightarrow> number \<Rightarrow> number" where
  "jdiv (Fin a) (Fin b) =
     (if b = 0 then (if a = 0 then NaN else if 0 < a then PInf else NInf)
      else Fin (a / b))"
| "jdiv (Fin a) PInf = Fin 0"
| "jdiv (Fin a) NInf = Fin 0"
| "jdiv PInf (Fin b) = (if 0 \<le> b then PInf else NInf)"
| "jdiv NInf (Fin b) = (if 0 \<le> b then NInf else PInf)"
| "jdiv PInf PInf = NaN"
| "jdiv PInf NInf = NaN"
| "jdiv NInf PInf = NaN"
| "jdiv NInf NInf = NaN"
| "jdiv NaN y = NaN"
| "jdiv x NaN = NaN"

text \<open>\<open>Math.pow(x, n)\<close> for a whole exponent \<open>n \<ge> 0\<close>, the only use the module makes
  of it; \<open>Math.pow(x, 0)\<close> is 1 for every \<open>x\<close>, \<open>NaN\<close> included.\<close>

fun jpow :: "number \<Rightarrow> nat \<Rightarrow> number" where
  "jpow x 0 = Fin 1"
| "jpow (Fin a) (Suc n) = Fin (a ^ Suc n)"
| "jpow PInf (Suc n) = PInf"
| "jpow NInf (Suc n) = (if even n then NInf else PInf)"
| "jpow NaN (Suc n) = NaN"

fun jle :: "number \<Rightarrow> number \<Rightarrow> bool" where
  "jle (Fin a) (Fin b) = (a \<le> b)"
| "jle (Fin a) PInf = True"
| "jle (Fin a) NInf = False"
| "jle PInf (Fin b) = False"
| "jle PInf PInf = True"
| "jle PInf NInf = False"
| "jle NInf (Fin b) = True"
| "jle NInf PInf = True"
| "jle NInf NInf = True"
| "jle NaN y = False"
| "jle x NaN = False"

fun jlt :: "number \<Rightarrow> number \<Rightarrow> bool" where
  "jlt (Fin a) (Fin b) = (a < b)"
| "jlt (Fin a) PInf = True"
| "jlt (Fin a) NInf = False"
| "jlt PInf (Fin b) = False"
| "jlt PInf PInf = False"
| "jlt PInf NInf = False"
| "jlt NInf (Fin b) = True"
| "jlt NInf PInf = True"
| "jlt NInf NInf = False"
| "jlt NaN y = False"
| "jlt x NaN = False"

definition jge :: "number \<Rightarrow> number \<Rightarrow> bool" where
  "jge x y = jle y x"

definition jgt :: "number \<Rightarrow> number \<Rightarrow> bool" where
  "jgt x y = jlt y x"

fun isNaN :: "number \<Rightarrow> bool" where
  "isNaN NaN = True"
| "isNaN x = False"

definition jmax :: "number \<Rightarrow> number \<Rightarrow> number" where
  "jmax x y = (if isNaN x \<or> isNaN y then NaN else if jle x y then y else x)"

definition jmin :: "number \<Rightarrow> number \<Rightarrow> number" where
  "jmin x y = (if isNaN x \<or> isNaN y then NaN else if jle x y then x else y)"

section \<open>The finance module\<close>

datatype ContributionIndexation = inflationAdjusted | fixedNominal

datatype ContributionTiming = End | Begin

record SimulationPoint =
  month :: nat
  age :: number
  inflFactor :: number
  balanceReal :: number
  balanceNominal :: number
  contributionNominal :: number
  contributionReal :: number

definition clamp :: "number \<Rightarrow> number \<Rightarrow> number \<Rightarrow> number" where
  "clamp n mn mx = jmin mx (jmax mn n)"

definition realMonthlyRateFromGross :: "number \<Rightarrow> number \<Rightarrow> number \<Rightarrow> number" where
  "realMonthlyRateFromGross grossMonthlyRate taxOnGainsRate inflationMonthlyRate =
     (let g = grossMonthlyRate;
          tax = clamp taxOnGainsRate (Fin 0) (Fin 1);
          infl = inflationMonthlyRate;
          netNominal = jadd (Fin 1) (jmul g (jsub (Fin 1) tax));
          real = jsub (jdiv netNominal (jadd (Fin 1) infl)) (Fin 1)
      in clamp real (Fin (- 0.99)) (Fin 10))"

text \<open>
  The parameter object of each function is passed as its fields, in the order of the
  type declaration. The timing literals \<open>"end"\<close> and \<open>"begin"\<close> are the constructors
  \<open>End\<close> and \<open>Begin\<close>. \<open>simulateProjection_loop\<close> is the \<open>for\<close> loop of
  \<open>simulateProjection\<close>: its last two arguments are the counter \<open>m\<close> and the running
  real balance (the variable \<open>balanceReal\<close> of the source, here \<open>bal\<close>, the name
  \<open>balanceReal\<close> being the field of the point), and it returns the points pushed from
  month \<open>m\<close> on.
\<close>

function simulateProjection_loop ::
  "number \<Rightarrow> int \<Rightarrow> number \<Rightarrow> number \<Rightarrow> number \<Rightarrow> ContributionIndexation \<Rightarrow>
   ContributionTiming \<Rightarrow> nat \<Rightarrow> number \<Rightarrow> SimulationPoint list" where
  "simulateProjection_loop pmt0 months ageNow r inflM indexation timing m bal =
     (if int m \<le> months then
        (let inflFactor = jpow (jadd (Fin 1) inflM) m;
             contributionNominal =
               (if indexation = inflationAdjusted then jmul pmt0 inflFactor else pmt0);
             contributionReal =
               (if indexation = inflationAdjusted then pmt0 else jdiv pmt0 inflFactor);
             balanceNominal = jmul bal inflFactor;
             point = \<lparr> month = m,
                       age = jadd ageNow (jdiv (Fin (real m)) (Fin 12)),
                       inflFactor = inflFactor,
                       balanceReal = bal,
                       balanceNominal = balanceNominal,
                       contributionNominal = contributionNominal,
                       contributionReal = contributionReal \<rparr>
         in if int m = months then [point]
            else
              (let bal' =
                     (if timing = Begin
                      then jmul (jadd bal contributionReal) (jadd (Fin 1) r)
                      else jadd (jmul bal (jadd (Fin 1) r)) contributionReal)
               in if \<not> isFinite bal' then [point]
                  else point #
                    simulateProjection_loop pmt0 months ageNow r inflM indexation timing
                      (m + 1) bal'))
      else [])"
  by pat_completeness auto
termination
  by (relation "measure (\<lambda>(pmt0, months, ageNow, r, inflM, indexation, timing, m, b).
        nat (months + 1 - int m))") auto

definition simulateProjection ::
  "number \<Rightarrow> number \<Rightarrow> int \<Rightarrow> number \<Rightarrow> number \<Rightarrow> number \<Rightarrow> ContributionIndexation \<Rightarrow>
   ContributionTiming \<Rightarrow> SimulationPoint list" where
  "simulateProjection pvToday pmt0 months ageNow r inflM indexation timing =
     simulateProjection_loop pmt0 months ageNow r inflM indexation timing 0
       (jmax (Fin 0) pvToday)"

definition finalBalanceReal ::
  "number \<Rightarrow> number \<Rightarrow> int \<Rightarrow> number \<Rightarrow> number \<Rightarrow> number \<Rightarrow> ContributionIndexation \<Rightarrow>
   ContributionTiming \<Rightarrow> number" where
  "finalBalanceReal pvToday pmt0 months ageNow r inflM indexation timing =
     (let pts = simulateProjection pvToday pmt0 months ageNow r inflM indexation timing
      in if length pts \<noteq> 0 then balanceReal (pts ! (length pts - 1)) else NaN)"

text \<open>
  \<open>monthsToTarget_loop\<close> is the \<open>for\<close> loop of \<open>monthsToTarget\<close>, from counter \<open>m\<close>
  and running balance \<open>bal\<close>; \<open>None\<close> is the source's \<open>null\<close>. The optional
  \<open>maxMonths\<close> is an \<open>int option\<close>.
\<close>

function monthsToTarget_loop ::
  "number \<Rightarrow> number \<Rightarrow> number \<Rightarrow> number \<Rightarrow> ContributionIndexation \<Rightarrow>
   ContributionTiming \<Rightarrow> int \<Rightarrow> nat \<Rightarrow> number \<Rightarrow> nat option" where
  "monthsToTarget_loop pmt0 targetToday r inflM indexation timing maxMonths m bal =
     (if int m \<le> maxMonths then
        (let inflFactorPrev = jpow (jadd (Fin 1) inflM) (m - 1);
             contributionReal =
               (if indexation = inflationAdjusted then pmt0 else jdiv pmt0 inflFactorPrev);
             bal' =
               (if timing = Begin
                then jmul (jadd bal contributionReal) (jadd (Fin 1) r)
                else jadd (jmul bal (jadd (Fin 1) r)) contributionReal)
         in if \<not> isFinite bal' then None
            else if jge bal' targetToday then Some m
            else monthsToTarget_loop pmt0 targetToday r inflM indexation timing maxMonths
                   (m + 1) bal')
      else None)"
  by pat_completeness auto
termination
  by (relation "measure (\<lambda>(pmt0, targetToday, r, inflM, indexation, timing, maxMonths, m, b).
        nat (maxMonths + 1 - int m))") auto

definition monthsToTarget ::
  "number \<Rightarrow> number \<Rightarrow> number \<Rightarrow> number \<Rightarrow> number \<Rightarrow> number \<Rightarrow> ContributionIndexation \<Rightarrow>
   ContributionTiming \<Rightarrow> int option \<Rightarrow> nat option" where
  "monthsToTarget pvToday pmt0 targetToday ageNow r inflM indexation timing maxMonthsOpt =
     (let maxMonths = (case maxMonthsOpt of None \<Rightarrow> 2400 | Some k \<Rightarrow> k)
      in if jle targetToday pvToday then Some 0
         else monthsToTarget_loop pmt0 targetToday r inflM indexation timing maxMonths 1
                (jmax (Fin 0) pvToday))"

text \<open>
  \<open>solveRequiredPmt\<close>: \<open>reaches\<close> is the closure of the source; \<open>bracket\<close> is the
  \<open>while\<close> loop that doubles \<open>high\<close> (\<open>None\<close> when it returns \<open>null\<close> from inside the
  loop, otherwise the \<open>high\<close> the loop ends with); \<open>bisect\<close> is the \<open>for\<close> loop of 70
  halvings, its first argument the number of iterations left, and returns the final
  \<open>high\<close>.
\<close>

definition reaches ::
  "number \<Rightarrow> number \<Rightarrow> int \<Rightarrow> number \<Rightarrow> number \<Rightarrow> number \<Rightarrow> ContributionIndexation \<Rightarrow>
   ContributionTiming \<Rightarrow> number \<Rightarrow> bool" where
  "reaches pvToday targetToday months ageNow r inflM indexation timing pmt0 =
     (let end = finalBalanceReal pvToday pmt0 months ageNow r inflM indexation timing
      in isFinite end \<and> jge end targetToday)"

function bracket :: "(number \<Rightarrow> bool) \<Rightarrow> number \<Rightarrow> nat \<Rightarrow> number option" where
  "bracket reach high guard =
     (if \<not> reach high \<and> guard < 60 then
        (let high' = jmul high (Fin 2)
         in if jgt high' (Fin 1000000000) then None
            else bracket reach high' (guard + 1))
      else Some high)"
  by pat_completeness auto
termination
  by (relation "measure (\<lambda>(reach, high, guard). 60 - guard)") auto

fun bisect :: "(number \<Rightarrow> bool) \<Rightarrow> nat \<Rightarrow> number \<Rightarrow> number \<Rightarrow> number" where
  "bisect reach 0 low high = high"
| "bisect reach (Suc n) low high =
     (let mid = jdiv (jadd low high) (Fin 2)
      in if reach mid then bisect reach n low mid else bisect reach n mid high)"

definition solveRequiredPmt ::
  "number \<Rightarrow> number \<Rightarrow> int \<Rightarrow> number \<Rightarrow> number \<Rightarrow> number \<Rightarrow> ContributionIndexation \<Rightarrow>
   ContributionTiming \<Rightarrow> number option" where
  "solveRequiredPmt pvToday targetToday months ageNow r inflM indexation timing =
     (if months \<le> 0 then None
      else if jle targetToday pvToday then Some (Fin 0)
      else
        (let reach = reaches pvToday targetToday months ageNow r inflM indexation timing;
             low = Fin 0;
             high = jmax (Fin 1) (jdiv (jsub targetToday pvToday) (Fin (real_of_int months)))
         in case bracket reach high 0 of
              None \<Rightarrow> None
            | Some high' \<Rightarrow> Some (jmax (Fin 0) (bisect reach 70 low high'))))"

subsection \<open>The parts of the loop body\<close>

text \<open>
  Two names used to state properties of the loops: \<open>advance\<close> is the update of the
  running real balance by one month, which both loops write out in the same way, and
  \<open>snapshot\<close> is the point \<open>simulateProjection\<close> pushes in month \<open>m\<close> at balance
  \<open>bal\<close>. Lemma \<open>loop_unfold\<close> relates them to the loop.
\<close>

definition advance :: "ContributionTiming \<Rightarrow> number \<Rightarrow> number \<Rightarrow> number \<Rightarrow> number" where
  "advance timing r bal c =
     (if timing = Begin then jmul (jadd bal c) (jadd (Fin 1) r)
      else jadd (jmul bal (jadd (Fin 1) r)) c)"

definition snapshot ::
  "number \<Rightarrow> number \<Rightarrow> number \<Rightarrow> ContributionIndexation \<Rightarrow> nat \<Rightarrow> number \<Rightarrow> SimulationPoint" where
  "snapshot pmt0 ageNow inflM indexation m bal =
     \<lparr> month = m,
       age = jadd ageNow (jdiv (Fin (real m)) (Fin 12)),
       inflFactor = jpow (jadd (Fin 1) inflM) m,
       balanceReal = bal,
       balanceNominal = jmul bal (jpow (jadd (Fin 1) inflM) m),
       contributionNominal =
         (if indexation = inflationAdjusted then jmul pmt0 (jpow (jadd (Fin 1) inflM) m)
          else pmt0),
       contributionReal =
         (if indexation = inflationAdjusted then pmt0
          else jdiv pmt0 (jpow (jadd (Fin 1) inflM) m)) \<rparr>"

text \<open>
  \<open>runningBalance\<close> follows the words of the specification of the simulator (the
  running real balance, seeded at \<open>max(0, pvToday)\<close> and advanced once per month with
  the real contribution of that month); it is what the loops are compared with.
  \<open>runningBalance \<dots> i\<close> is the balance after \<open>i\<close> updates from the seed.
\<close>

fun runningBalance ::
  "number \<Rightarrow> number \<Rightarrow> number \<Rightarrow> number \<Rightarrow> ContributionIndexation \<Rightarrow> ContributionTiming \<Rightarrow>
   nat \<Rightarrow> number" where
  "runningBalance pvToday pmt0 r inflM indexation timing 0 = jmax (Fin 0) pvToday"
| "runningBalance pvToday pmt0 r inflM indexation timing (Suc i) =
     advance timing r (runningBalance pvToday pmt0 r inflM indexation timing i)
       (if indexation = inflationAdjusted then pmt0
        else jdiv pmt0 (jpow (jadd (Fin 1) inflM) i))"

section \<open>Properties\<close>

declare simulateProjection_loop.simps [simp del]
declare monthsToTarget_loop.simps [simp del]
declare bracket.simps [simp del]

subsection \<open>Clamping and the real monthly rate\<close>

lemma jle_clamp_lower: "\<not> isNaN n \<Longrightarrow> jle mn mx \<Longrightarrow> jle mn (clamp n mn mx)"
  by (cases n; cases mn; cases mx) (auto simp: clamp_def jmax_def jmin_def)

lemma jle_clamp_upper: "\<not> isNaN n \<Longrightarrow> jle mn mx \<Longrightarrow> jle (clamp n mn mx) mx"
  by (cases n; cases mn; cases mx) (auto simp: clamp_def jmax_def jmin_def)

lemma isNaN_clamp: "\<not> isNaN mn \<Longrightarrow> \<not> isNaN mx \<Longrightarrow> isNaN (clamp n mn mx) = isNaN n"
  by (cases n; cases mn; cases mx) (auto simp: clamp_def jmax_def jmin_def)

lemma clamp_tax_cases:
  "\<not> isNaN tax \<Longrightarrow> \<exists>t. clamp tax (Fin 0) (Fin 1) = Fin t \<and> 0 \<le> t \<and> t \<le> 1"
  by (cases tax) (auto simp: clamp_def jmax_def jmin_def)

lemma real_rate_not_NaN:
  assumes "isFinite g" "\<not> isNaN tax" "isFinite infl" "infl \<noteq> Fin (- 1)"
  shows "\<not> isNaN (jsub (jdiv (jadd (Fin 1) (jmul g (jsub (Fin 1) (clamp tax (Fin 0) (Fin 1)))))
            (jadd (Fin 1) infl)) (Fin 1))"
proof -
  obtain a where g: "g = Fin a" using assms(1) by (cases g) auto
  obtain b where i: "infl = Fin b" "b \<noteq> - 1" using assms(3,4) by (cases infl) auto
  obtain t where t: "clamp tax (Fin 0) (Fin 1) = Fin t" 
    using clamp_tax_cases [OF assms(2)] by blast
  have nz: "1 + b \<noteq> 0" using i(2) by linarith
  show ?thesis
    unfolding g i(1) t using nz
    by (simp add: jsub_def)
qed


lemma realMonthlyRate_unfold:
  "realMonthlyRateFromGross g tax infl =
      clamp (jsub (jdiv (jadd (Fin 1) (jmul g (jsub (Fin 1) (clamp tax (Fin 0) (Fin 1)))))
                    (jadd (Fin 1) infl)) (Fin 1)) (Fin (- 0.99)) (Fin 10)"
  by (simp add: realMonthlyRateFromGross_def Let_def)

lemma clamp_in_range:
  assumes "\<not> isNaN (clamp n mn mx)" "jle mn mx"
  shows "jle mn (clamp n mn mx) \<and> jle (clamp n mn mx) mx"
proof -
  have "\<not> isNaN n" using assms(1) by (cases n) (auto simp: clamp_def jmax_def jmin_def)
  then show ?thesis using jle_clamp_lower jle_clamp_upper assms(2) by blast
qed

lemma realMonthlyRate_not_NaN_range:
  assumes "\<not> isNaN (realMonthlyRateFromGross g tax infl)"
  shows "jle (Fin (- 0.99)) (realMonthlyRateFromGross g tax infl) \<and>
         jle (realMonthlyRateFromGross g tax infl) (Fin 10)"
proof -
  have b: "jle (Fin (- 0.99)) (Fin 10)" by simp
  show ?thesis
    using assms unfolding realMonthlyRate_unfold by (rule clamp_in_range [OF _ b])
qed

lemma realMonthlyRate_finite_not_NaN:
  assumes "isFinite g" "\<not> isNaN tax" "isFinite infl" "infl \<noteq> Fin (- 1)"
  shows "\<not> isNaN (realMonthlyRateFromGross g tax infl)"
  unfolding realMonthlyRate_unfold
  using real_rate_not_NaN [OF assms] by (subst isNaN_clamp) simp_all

text \<open>
  C7 (as amended). \<open>realMonthlyRateFromGross\<close> clamps the tax rate to \<open>[0, 1]\<close> and
  returns \<open>clamp((1 + gross * (1 - tax)) / (1 + inflation) - 1, -0.99, 10)\<close>. The
  result is \<open>NaN\<close> or lies in \<open>[-0.99, 10]\<close>; it lies in \<open>[-0.99, 10]\<close> whenever
  the gross rate and the inflation rate are finite, the tax rate is not \<open>NaN\<close> and
  the inflation rate is not \<open>-1\<close>.
\<close>

theorem realMonthlyRate_range:
  "realMonthlyRateFromGross g tax infl =
      clamp (jsub (jdiv (jadd (Fin 1) (jmul g (jsub (Fin 1) (clamp tax (Fin 0) (Fin 1)))))
                    (jadd (Fin 1) infl)) (Fin 1)) (Fin (- 0.99)) (Fin 10)
   \<and> (\<not> isNaN tax \<longrightarrow>
        jle (Fin 0) (clamp tax (Fin 0) (Fin 1)) \<and> jle (clamp tax (Fin 0) (Fin 1)) (Fin 1))
   \<and> (\<not> isNaN (realMonthlyRateFromGross g tax infl) \<longrightarrow>
        jle (Fin (- 0.99)) (realMonthlyRateFromGross g tax infl) \<and>
        jle (realMonthlyRateFromGross g tax infl) (Fin 10))
   \<and> (isFinite g \<and> \<not> isNaN tax \<and> isFinite infl \<and> infl \<noteq> Fin (- 1) \<longrightarrow>
        jle (Fin (- 0.99)) (realMonthlyRateFromGross g tax infl) \<and>
        jle (realMonthlyRateFromGross g tax infl) (Fin 10))"
proof (intro conjI impI)
  show "realMonthlyRateFromGross g tax infl =
      clamp (jsub (jdiv (jadd (Fin 1) (jmul g (jsub (Fin 1) (clamp tax (Fin 0) (Fin 1)))))
                    (jadd (Fin 1) infl)) (Fin 1)) (Fin (- 0.99)) (Fin 10)"
    by (rule realMonthlyRate_unfold)
next
  assume "\<not> isNaN tax"
  then show "jle (Fin 0) (clamp tax (Fin 0) (Fin 1))" by (rule jle_clamp_lower) simp
next
  assume "\<not> isNaN tax"
  then show "jle (clamp tax (Fin 0) (Fin 1)) (Fin 1)" by (rule jle_clamp_upper) simp
next
  assume "\<not> isNaN (realMonthlyRateFromGross g tax infl)"
  then show "jle (Fin (- 0.99)) (realMonthlyRateFromGross g tax infl)"
    using realMonthlyRate_not_NaN_range by blast
next
  assume "\<not> isNaN (realMonthlyRateFromGross g tax infl)"
  then show "jle (realMonthlyRateFromGross g tax infl) (Fin 10)"
    using realMonthlyRate_not_NaN_range by blast
next
  assume "isFinite g \<and> \<not> isNaN tax \<and> isFinite infl \<and> infl \<noteq> Fin (- 1)"
  then have "\<not> isNaN (realMonthlyRateFromGross g tax infl)"
    using realMonthlyRate_finite_not_NaN by blast
  then show "jle (Fin (- 0.99)) (realMonthlyRateFromGross g tax infl)"
    using realMonthlyRate_not_NaN_range by blast
next
  assume "isFinite g \<and> \<not> isNaN tax \<and> isFinite infl \<and> infl \<noteq> Fin (- 1)"
  then have "\<not> isNaN (realMonthlyRateFromGross g tax infl)"
    using realMonthlyRate_finite_not_NaN by blast
  then show "jle (realMonthlyRateFromGross g tax infl) (Fin 10)"
    using realMonthlyRate_not_NaN_range by blast
qed

theorem realMonthlyRate_range_witness:
  "isFinite (Fin 0.01) \<and> \<not> isNaN (Fin 0.15) \<and> isFinite (Fin 0.003) \<and> Fin 0.003 \<noteq> Fin (- 1)
   \<and> realMonthlyRateFromGross (Fin 0.01) (Fin 0.15) (Fin 0.003) = Fin (11 / 2006)
   \<and> jle (Fin (- 0.99)) (realMonthlyRateFromGross (Fin 0.01) (Fin 0.15) (Fin 0.003))
   \<and> jle (realMonthlyRateFromGross (Fin 0.01) (Fin 0.15) (Fin 0.003)) (Fin 10)"
proof -
  have v: "realMonthlyRateFromGross (Fin 0.01) (Fin 0.15) (Fin 0.003) = Fin (11 / 2006)"
    by (simp add: realMonthlyRateFromGross_def clamp_def jmax_def jmin_def jsub_def Let_def)
  have h: "isFinite (Fin 0.01) \<and> \<not> isNaN (Fin 0.15) \<and> isFinite (Fin 0.003) \<and> Fin 0.003 \<noteq> Fin (- 1)"
    by simp
  from realMonthlyRate_range [of "Fin 0.01" "Fin 0.15" "Fin 0.003"] h
  have "jle (Fin (- 0.99)) (realMonthlyRateFromGross (Fin 0.01) (Fin 0.15) (Fin 0.003))
      \<and> jle (realMonthlyRateFromGross (Fin 0.01) (Fin 0.15) (Fin 0.003)) (Fin 10)"
    by blast
  with h v show ?thesis by blast
qed

text \<open>
  With a gross rate of \<open>-1\<close>, no tax and an inflation rate of \<open>-1\<close> the quotient is
  \<open>0 / 0\<close>, and \<open>clamp\<close> passes the \<open>NaN\<close> on: the result is in no interval.
\<close>

theorem realMonthlyRate_range_counterexample:
  "\<not> (jle (Fin (- 0.99)) (realMonthlyRateFromGross (Fin (- 1)) (Fin 0) (Fin (- 1))) \<and>
      jle (realMonthlyRateFromGross (Fin (- 1)) (Fin 0) (Fin (- 1))) (Fin 10))"
  by (simp add: realMonthlyRateFromGross_def clamp_def jmax_def jmin_def jsub_def Let_def)

subsection \<open>The simulation loop\<close>

lemma loop_unfold:
  "simulateProjection_loop pmt0 months ageNow r inflM ix tm m bal =
     (if int m \<le> months then
        (if int m = months then [snapshot pmt0 ageNow inflM ix m bal]
         else if \<not> isFinite (advance tm r bal (contributionReal (snapshot pmt0 ageNow inflM ix m bal)))
              then [snapshot pmt0 ageNow inflM ix m bal]
         else snapshot pmt0 ageNow inflM ix m bal #
              simulateProjection_loop pmt0 months ageNow r inflM ix tm (m + 1)
                (advance tm r bal (contributionReal (snapshot pmt0 ageNow inflM ix m bal))))
      else [])"
  by (subst simulateProjection_loop.simps) (simp add: Let_def snapshot_def advance_def)

lemma loop_empty: "\<not> int m \<le> months \<Longrightarrow>
    simulateProjection_loop pmt0 months ageNow r inflM ix tm m bal = []"
  by (subst loop_unfold) simp

lemma loop_hd:
  "int m \<le> months \<Longrightarrow>
   \<exists>rest. simulateProjection_loop pmt0 months ageNow r inflM ix tm m bal =
     snapshot pmt0 ageNow inflM ix m bal # rest"
  by (subst loop_unfold) simp

lemma loop_length_le:
  "int m \<le> months \<Longrightarrow>
   length (simulateProjection_loop pmt0 months ageNow r inflM ix tm m bal)
     \<le> nat (months - int m) + 1"
proof (induction pmt0 months ageNow r inflM ix tm m bal rule: simulateProjection_loop.induct)
  case (1 pmt0 months ageNow r inflM ix tm m bal)
  let ?c = "contributionReal (snapshot pmt0 ageNow inflM ix m bal)"
  show ?case
  proof (cases "int m = months \<or> \<not> isFinite (advance tm r bal ?c)")
    case True
    then show ?thesis using "1.prems" by (subst loop_unfold) auto
  next
    case False
    then have lt: "int (m + 1) \<le> months" using "1.prems" by simp
    have IH: "length (simulateProjection_loop pmt0 months ageNow r inflM ix tm (m + 1)
                (advance tm r bal ?c)) \<le> nat (months - int (m + 1)) + 1"
      using "1.IH" [OF "1.prems" refl refl refl refl refl _ refl] False lt
      by (simp add: snapshot_def advance_def)
    show ?thesis using False "1.prems" IH lt by (subst loop_unfold) auto
  qed
qed


lemma loop_cases:
  assumes "int m \<le> months"
  obtains
    (last) "int m = months"
      "simulateProjection_loop pmt0 months ageNow r inflM ix tm m bal =
         [snapshot pmt0 ageNow inflM ix m bal]"
  | (trunc) "int m < months"
      "\<not> isFinite (advance tm r bal (contributionReal (snapshot pmt0 ageNow inflM ix m bal)))"
      "simulateProjection_loop pmt0 months ageNow r inflM ix tm m bal =
         [snapshot pmt0 ageNow inflM ix m bal]"
  | (step) "int m < months"
      "isFinite (advance tm r bal (contributionReal (snapshot pmt0 ageNow inflM ix m bal)))"
      "simulateProjection_loop pmt0 months ageNow r inflM ix tm m bal =
         snapshot pmt0 ageNow inflM ix m bal #
         simulateProjection_loop pmt0 months ageNow r inflM ix tm (Suc m)
           (advance tm r bal (contributionReal (snapshot pmt0 ageNow inflM ix m bal)))"
proof -
  let ?L = "simulateProjection_loop pmt0 months ageNow r inflM ix tm m bal"
  let ?b = "advance tm r bal (contributionReal (snapshot pmt0 ageNow inflM ix m bal))"
  consider "int m = months" | "int m < months" "\<not> isFinite ?b" | "int m < months" "isFinite ?b"
    using assms by fastforce
  then show thesis
  proof cases
    case 1
    then have "?L = [snapshot pmt0 ageNow inflM ix m bal]" by (subst loop_unfold) simp
    with 1 show thesis by (rule last)
  next
    case 2
    then have "?L = [snapshot pmt0 ageNow inflM ix m bal]" by (subst loop_unfold) simp
    with 2 show thesis by (rule trunc)
  next
    case 3
    then have "?L = snapshot pmt0 ageNow inflM ix m bal #
         simulateProjection_loop pmt0 months ageNow r inflM ix tm (Suc m) ?b"
      by (subst loop_unfold) simp
    with 3 show thesis by (rule step)
  qed
qed

lemma balanceReal_snapshot [simp]: "balanceReal (snapshot pmt0 ageNow inflM ix m bal) = bal"
  by (simp add: snapshot_def)

lemma month_snapshot [simp]: "month (snapshot pmt0 ageNow inflM ix m bal) = m"
  by (simp add: snapshot_def)

lemma inflFactor_snapshot [simp]:
  "inflFactor (snapshot pmt0 ageNow inflM ix m bal) = jpow (jadd (Fin 1) inflM) m"
  by (simp add: snapshot_def)

lemma contributionReal_snapshot:
  "contributionReal (snapshot pmt0 ageNow inflM ix m bal) =
     (if ix = inflationAdjusted then pmt0 else jdiv pmt0 (jpow (jadd (Fin 1) inflM) m))"
  by (simp add: snapshot_def)

lemma loop_nth:
  "i < length (simulateProjection_loop pmt0 months ageNow r inflM ix tm m bal) \<Longrightarrow>
   simulateProjection_loop pmt0 months ageNow r inflM ix tm m bal ! i =
     snapshot pmt0 ageNow inflM ix (m + i)
       (balanceReal (simulateProjection_loop pmt0 months ageNow r inflM ix tm m bal ! i))"
proof (induction i arbitrary: m bal)
  case 0
  then have le: "int m \<le> months" by (cases "int m \<le> months") (simp_all add: loop_empty)
  then show ?case by (cases rule: loop_cases [OF le, of pmt0 ageNow r inflM ix tm bal]) simp_all
next
  case (Suc i)
  then have le: "int m \<le> months" by (cases "int m \<le> months") (simp_all add: loop_empty)
  from le show ?case
  proof (cases rule: loop_cases [of m months pmt0 ageNow r inflM ix tm bal])
    case last
    with Suc.prems show ?thesis by simp
  next
    case trunc
    with Suc.prems show ?thesis by simp
  next
    case step
    with Suc.prems Suc.IH [of "Suc m" "advance tm r bal (contributionReal (snapshot pmt0 ageNow inflM ix m bal))"]
    show ?thesis by simp
  qed
qed

lemma loop_step:
  "Suc i < length (simulateProjection_loop pmt0 months ageNow r inflM ix tm m bal) \<Longrightarrow>
   balanceReal (simulateProjection_loop pmt0 months ageNow r inflM ix tm m bal ! Suc i) =
     advance tm r
       (balanceReal (simulateProjection_loop pmt0 months ageNow r inflM ix tm m bal ! i))
       (contributionReal (simulateProjection_loop pmt0 months ageNow r inflM ix tm m bal ! i))
   \<and> isFinite (balanceReal (simulateProjection_loop pmt0 months ageNow r inflM ix tm m bal ! Suc i))"
proof (induction i arbitrary: m bal)
  case 0
  then have le: "int m \<le> months" by (cases "int m \<le> months") (simp_all add: loop_empty)
  from le show ?case
  proof (cases rule: loop_cases [of m months pmt0 ageNow r inflM ix tm bal])
    case last
    with 0 show ?thesis by simp
  next
    case trunc
    with 0 show ?thesis by simp
  next
    case step
    let ?b = "advance tm r bal (contributionReal (snapshot pmt0 ageNow inflM ix m bal))"
    from 0 step(3) have ne: "0 < length (simulateProjection_loop pmt0 months ageNow r inflM ix tm (Suc m) ?b)"
      by simp
    from loop_nth [OF ne] have "balanceReal (simulateProjection_loop pmt0 months ageNow r inflM ix tm (Suc m) ?b ! 0) = ?b"
    proof -
      have le': "int (Suc m) \<le> months" using ne by (cases "int (Suc m) \<le> months") (simp_all add: loop_empty)
      from loop_hd [OF le', of pmt0 ageNow r inflM ix tm ?b] show ?thesis by auto
    qed
    with step show ?thesis by simp
  qed
next
  case (Suc i)
  then have le: "int m \<le> months" by (cases "int m \<le> months") (simp_all add: loop_empty)
  from le show ?case
  proof (cases rule: loop_cases [of m months pmt0 ageNow r inflM ix tm bal])
    case last
    with Suc.prems show ?thesis by simp
  next
    case trunc
    with Suc.prems show ?thesis by simp
  next
    case step
    let ?L' = "simulateProjection_loop pmt0 months ageNow r inflM ix tm (Suc m)
                 (advance tm r bal (contributionReal (snapshot pmt0 ageNow inflM ix m bal)))"
    have "Suc i < length ?L'" using Suc.prems step(3) by simp
    note IH = Suc.IH [OF this]
    show ?thesis unfolding step(3) nth_Cons_Suc by (rule IH)
  qed
qed

lemma loop_trunc:
  "int m \<le> months \<Longrightarrow>
   length (simulateProjection_loop pmt0 months ageNow r inflM ix tm m bal)
     \<noteq> nat (months - int m) + 1 \<Longrightarrow>
   \<not> isFinite (advance tm r
       (balanceReal (last (simulateProjection_loop pmt0 months ageNow r inflM ix tm m bal)))
       (contributionReal (last (simulateProjection_loop pmt0 months ageNow r inflM ix tm m bal))))"
proof (induction "nat (months - int m)" arbitrary: m bal)
  case 0
  then have eq: "int m = months" by simp
  then have "simulateProjection_loop pmt0 months ageNow r inflM ix tm m bal =
         [snapshot pmt0 ageNow inflM ix m bal]" by (subst loop_unfold) simp
  with 0 eq show ?case by simp
next
  case (Suc k)
  from Suc.prems(1) show ?case
  proof (cases rule: loop_cases [of m months pmt0 ageNow r inflM ix tm bal])
    case last
    with Suc.hyps(2) show ?thesis by simp
  next
    case trunc
    then show ?thesis by simp
  next
    case step
    let ?b = "advance tm r bal (contributionReal (snapshot pmt0 ageNow inflM ix m bal))"
    let ?L' = "simulateProjection_loop pmt0 months ageNow r inflM ix tm (Suc m) ?b"
    have k: "k = nat (months - int (Suc m))" using Suc.hyps(2) by simp
    have le': "int (Suc m) \<le> months" using step(1) by simp
    have len: "length ?L' \<noteq> nat (months - int (Suc m)) + 1"
      using Suc.prems(2) step(3) Suc.hyps(2) k by simp
    have ne: "?L' \<noteq> []" using loop_hd [OF le', of pmt0 ageNow r inflM ix tm ?b] by auto
    from Suc.hyps(1) [OF k le' len] ne step(3) show ?thesis by simp
  qed
qed


lemma jpow_Fin: "jpow (Fin a) n = Fin (a ^ n)"
  by (cases n) simp_all

lemma jpow_mono_step:
  assumes "jle (Fin 0) x"
  shows "jle (jpow (jadd (Fin 1) x) n) (jpow (jadd (Fin 1) x) (Suc n))"
proof (cases x)
  case (Fin a)
  with assms have a: "0 \<le> a" by simp
  then have "(1 + a) ^ n \<le> (1 + a) ^ Suc n"
    by (intro power_increasing) simp_all
  with Fin show ?thesis by (simp only: jadd.simps jpow_Fin jle.simps)
next
  case PInf
  then show ?thesis by (cases n) simp_all
next
  case NInf
  with assms show ?thesis by simp
next
  case NaN
  with assms show ?thesis by simp
qed

lemma sim_nonempty:
  "0 \<le> months \<Longrightarrow> \<exists>rest. simulateProjection pv pmt0 months ageNow r inflM ix tm =
      snapshot pmt0 ageNow inflM ix 0 (jmax (Fin 0) pv) # rest"
  unfolding simulateProjection_def by (rule loop_hd) simp

lemma sim_empty:
  "months < 0 \<Longrightarrow> simulateProjection pv pmt0 months ageNow r inflM ix tm = []"
  unfolding simulateProjection_def by (rule loop_empty) simp

lemma finalBalanceReal_last:
  "0 \<le> months \<Longrightarrow>
   finalBalanceReal pv pmt0 months ageNow r inflM ix tm =
     balanceReal (last (simulateProjection pv pmt0 months ageNow r inflM ix tm))"
  using sim_nonempty [of months pv pmt0 ageNow r inflM ix tm]
  by (auto simp: finalBalanceReal_def Let_def last_conv_nth)

text \<open>
  C10. For \<open>months \<ge> 0\<close> the trajectory is not empty and its first point has month 0,
  inflation factor 1 and real balance \<open>max(0, pvToday)\<close>, which is 0 for a negative
  \<open>pvToday\<close>; \<open>finalBalanceReal\<close> then returns the real balance of the last point.
  The trajectory is empty, and \<open>finalBalanceReal\<close> returns \<open>NaN\<close> through its
  empty-trajectory branch, exactly when \<open>months < 0\<close>.
\<close>

theorem simulateProjection_first_point:
  "(simulateProjection pv pmt0 months ageNow r inflM ix tm = [] \<longleftrightarrow> months < 0)
   \<and> (months < 0 \<longrightarrow> finalBalanceReal pv pmt0 months ageNow r inflM ix tm = NaN)
   \<and> (0 \<le> months \<longrightarrow>
        month (simulateProjection pv pmt0 months ageNow r inflM ix tm ! 0) = 0
      \<and> inflFactor (simulateProjection pv pmt0 months ageNow r inflM ix tm ! 0) = Fin 1
      \<and> balanceReal (simulateProjection pv pmt0 months ageNow r inflM ix tm ! 0)
          = jmax (Fin 0) pv
      \<and> (jlt pv (Fin 0) \<longrightarrow>
          balanceReal (simulateProjection pv pmt0 months ageNow r inflM ix tm ! 0) = Fin 0)
      \<and> finalBalanceReal pv pmt0 months ageNow r inflM ix tm
          = balanceReal (last (simulateProjection pv pmt0 months ageNow r inflM ix tm)))"
proof (intro conjI impI)
  show "simulateProjection pv pmt0 months ageNow r inflM ix tm = [] \<longleftrightarrow> months < 0"
    using sim_nonempty [of months pv pmt0 ageNow r inflM ix tm]
      sim_empty [of months pv pmt0 ageNow r inflM ix tm]
    by (cases "months < 0") auto
next
  assume "months < 0"
  then show "finalBalanceReal pv pmt0 months ageNow r inflM ix tm = NaN"
    by (simp add: finalBalanceReal_def sim_empty)
next
  assume m: "0 \<le> months"
  then obtain rest where pts: "simulateProjection pv pmt0 months ageNow r inflM ix tm =
      snapshot pmt0 ageNow inflM ix 0 (jmax (Fin 0) pv) # rest"
    using sim_nonempty by blast
  show "month (simulateProjection pv pmt0 months ageNow r inflM ix tm ! 0) = 0"
    by (simp add: pts)
  show "inflFactor (simulateProjection pv pmt0 months ageNow r inflM ix tm ! 0) = Fin 1"
    by (simp add: pts)
  show "balanceReal (simulateProjection pv pmt0 months ageNow r inflM ix tm ! 0)
          = jmax (Fin 0) pv"
    by (simp add: pts)
  show "finalBalanceReal pv pmt0 months ageNow r inflM ix tm
          = balanceReal (last (simulateProjection pv pmt0 months ageNow r inflM ix tm))"
    using m by (rule finalBalanceReal_last)
  assume "jlt pv (Fin 0)"
  then have "jmax (Fin 0) pv = Fin 0" by (cases pv) (simp_all add: jmax_def)
  then show "balanceReal (simulateProjection pv pmt0 months ageNow r inflM ix tm ! 0) = Fin 0"
    by (simp add: pts)
qed

theorem simulateProjection_first_point_witness:
  "(0::int) \<le> 1 \<and> jlt (Fin (- 5)) (Fin 0)
   \<and> simulateProjection (Fin (- 5)) (Fin 10) 1 (Fin 40) (Fin 0) (Fin 0) fixedNominal Begin \<noteq> []
   \<and> balanceReal (simulateProjection (Fin (- 5)) (Fin 10) 1 (Fin 40) (Fin 0) (Fin 0)
        fixedNominal Begin ! 0) = Fin 0
   \<and> finalBalanceReal (Fin (- 5)) (Fin 10) 1 (Fin 40) (Fin 0) (Fin 0) fixedNominal Begin
       = Fin 10"
proof -
  have v: "simulateProjection (Fin (- 5)) (Fin 10) 1 (Fin 40) (Fin 0) (Fin 0) fixedNominal Begin
      = [snapshot (Fin 10) (Fin 40) (Fin 0) fixedNominal 0 (Fin 0),
         snapshot (Fin 10) (Fin 40) (Fin 0) fixedNominal 1 (Fin 10)]"
    by (simp add: simulateProjection_def jmax_def loop_unfold advance_def
          contributionReal_snapshot jpow_Fin)
  have h: "(0::int) \<le> 1 \<and> jlt (Fin (- 5)) (Fin 0)" by simp
  have h': "\<not> (1::int) < 0" by simp
  from simulateProjection_first_point
         [of "Fin (- 5)" "Fin 10" 1 "Fin 40" "Fin 0" "Fin 0" fixedNominal Begin] h
  have "simulateProjection (Fin (- 5)) (Fin 10) 1 (Fin 40) (Fin 0) (Fin 0) fixedNominal Begin \<noteq> []
     \<and> balanceReal (simulateProjection (Fin (- 5)) (Fin 10) 1 (Fin 40) (Fin 0) (Fin 0)
        fixedNominal Begin ! 0) = Fin 0
     \<and> finalBalanceReal (Fin (- 5)) (Fin 10) 1 (Fin 40) (Fin 0) (Fin 0) fixedNominal Begin
       = balanceReal (last (simulateProjection (Fin (- 5)) (Fin 10) 1 (Fin 40) (Fin 0) (Fin 0)
           fixedNominal Begin))"
    using h' by blast
  with h show ?thesis by (simp add: v)
qed

subsection \<open>The trajectory\<close>

lemma sim_nth:
  "i < length (simulateProjection pv pmt0 months ageNow r inflM ix tm) \<Longrightarrow>
   simulateProjection pv pmt0 months ageNow r inflM ix tm ! i =
     snapshot pmt0 ageNow inflM ix i
       (balanceReal (simulateProjection pv pmt0 months ageNow r inflM ix tm ! i))"
  unfolding simulateProjection_def using loop_nth [where m = 0] by simp

lemma sim_step:
  "Suc i < length (simulateProjection pv pmt0 months ageNow r inflM ix tm) \<Longrightarrow>
   balanceReal (simulateProjection pv pmt0 months ageNow r inflM ix tm ! Suc i) =
     advance tm r
       (balanceReal (simulateProjection pv pmt0 months ageNow r inflM ix tm ! i))
       (contributionReal (simulateProjection pv pmt0 months ageNow r inflM ix tm ! i))
   \<and> isFinite (balanceReal (simulateProjection pv pmt0 months ageNow r inflM ix tm ! Suc i))"
  unfolding simulateProjection_def by (rule loop_step)

text \<open>
  C2. Between two successive points of the trajectory the real balance is advanced
  according to the timing: with \<open>Begin\<close> the real contribution of the month is added
  and the return is then applied, \<open>balance' = (balance + contributionReal) * (1 + r)\<close>;
  with \<open>End\<close> the return is applied first,
  \<open>balance' = balance * (1 + r) + contributionReal\<close>.
\<close>

theorem simulateProjection_advance:
  "Suc i < length (simulateProjection pv pmt0 months ageNow r inflM ix tm) \<Longrightarrow>
   balanceReal (simulateProjection pv pmt0 months ageNow r inflM ix tm ! Suc i) =
     (if tm = Begin
      then jmul
             (jadd (balanceReal (simulateProjection pv pmt0 months ageNow r inflM ix tm ! i))
                   (contributionReal (simulateProjection pv pmt0 months ageNow r inflM ix tm ! i)))
             (jadd (Fin 1) r)
      else jadd
             (jmul (balanceReal (simulateProjection pv pmt0 months ageNow r inflM ix tm ! i))
                   (jadd (Fin 1) r))
             (contributionReal (simulateProjection pv pmt0 months ageNow r inflM ix tm ! i)))"
  using sim_step [of i pv pmt0 months ageNow r inflM ix tm] by (simp add: advance_def)

lemma sim_begin_example:
  "simulateProjection (Fin 1000) (Fin 500) 2 (Fin 30) (Fin 0.01) (Fin 0.002)
       inflationAdjusted Begin
     = [snapshot (Fin 500) (Fin 30) (Fin 0.002) inflationAdjusted 0 (Fin 1000),
        snapshot (Fin 500) (Fin 30) (Fin 0.002) inflationAdjusted 1 (Fin 1515),
        snapshot (Fin 500) (Fin 30) (Fin 0.002) inflationAdjusted 2 (Fin 2035.15)]"
  by (simp add: simulateProjection_def jmax_def loop_unfold advance_def
        contributionReal_snapshot jpow_Fin numeral_2_eq_2)

theorem simulateProjection_advance_witness:
  "Suc 0 < length (simulateProjection (Fin 1000) (Fin 500) 2 (Fin 30) (Fin 0.01) (Fin 0.002)
       inflationAdjusted Begin)
   \<and> balanceReal (simulateProjection (Fin 1000) (Fin 500) 2 (Fin 30) (Fin 0.01) (Fin 0.002)
       inflationAdjusted Begin ! Suc 0) = jmul (jadd (Fin 1000) (Fin 500)) (jadd (Fin 1) (Fin 0.01))
   \<and> jmul (jadd (Fin 1000) (Fin 500)) (jadd (Fin 1) (Fin 0.01)) = Fin 1515"
proof -
  have len: "Suc 0 < length (simulateProjection (Fin 1000) (Fin 500) 2 (Fin 30) (Fin 0.01)
       (Fin 0.002) inflationAdjusted Begin)"
    unfolding sim_begin_example by simp
  from simulateProjection_advance [OF len] len show ?thesis
    unfolding sim_begin_example by (simp add: contributionReal_snapshot)
qed

lemma sim_balance:
  "i < length (simulateProjection pv pmt0 months ageNow r inflM ix tm) \<Longrightarrow>
   balanceReal (simulateProjection pv pmt0 months ageNow r inflM ix tm ! i)
     = runningBalance pv pmt0 r inflM ix tm i"
proof (induction i)
  case 0
  then have "\<not> months < 0" using sim_empty [of months pv pmt0 ageNow r inflM ix tm] by auto
  then have "0 \<le> months" by simp
  from sim_nonempty [OF this, of pv pmt0 ageNow r inflM ix tm] show ?case by auto
next
  case (Suc i)
  let ?pts = "simulateProjection pv pmt0 months ageNow r inflM ix tm"
  from Suc.prems have i: "i < length ?pts" by simp
  have b: "balanceReal (?pts ! i) = runningBalance pv pmt0 r inflM ix tm i"
    using Suc.IH [OF i] .
  have "contributionReal (?pts ! i) = contributionReal (snapshot pmt0 ageNow inflM ix i
      (balanceReal (?pts ! i)))"
    using sim_nth [OF i] by simp
  then have c: "contributionReal (?pts ! i) =
      (if ix = inflationAdjusted then pmt0 else jdiv pmt0 (jpow (jadd (Fin 1) inflM) i))"
    by (simp only: contributionReal_snapshot)
  show ?case
    using sim_step [OF Suc.prems, THEN conjunct1] unfolding b c by simp
qed

lemma sim_point:
  "i < length (simulateProjection pv pmt0 months ageNow r inflM ix tm) \<Longrightarrow>
   simulateProjection pv pmt0 months ageNow r inflM ix tm ! i
     = snapshot pmt0 ageNow inflM ix i (runningBalance pv pmt0 r inflM ix tm i)"
  using sim_nth [of i pv pmt0 months ageNow r inflM ix tm]
    sim_balance [of i pv pmt0 months ageNow r inflM ix tm] by simp

lemma sim_kept_finite:
  "Suc i < length (simulateProjection pv pmt0 months ageNow r inflM ix tm) \<Longrightarrow>
   isFinite (runningBalance pv pmt0 r inflM ix tm (Suc i))"
  using sim_step [of i pv pmt0 months ageNow r inflM ix tm, THEN conjunct2]
    sim_balance [of "Suc i" pv pmt0 months ageNow r inflM ix tm] by simp

lemma sim_truncated_at:
  assumes m: "0 \<le> months"
    and len: "length (simulateProjection pv pmt0 months ageNow r inflM ix tm) \<noteq> nat months + 1"
  shows "\<not> isFinite (runningBalance pv pmt0 r inflM ix tm
            (length (simulateProjection pv pmt0 months ageNow r inflM ix tm)))"
proof -
  let ?pts = "simulateProjection pv pmt0 months ageNow r inflM ix tm"
  have ne: "?pts \<noteq> []" using sim_nonempty [OF m, of pv pmt0 ageNow r inflM ix tm] by auto
  then obtain n where n: "length ?pts = Suc n" by (cases ?pts) auto
  have last: "last ?pts = ?pts ! n" using ne n by (simp add: last_conv_nth)
  have nl: "n < length ?pts" using n by simp
  have tr: "\<not> isFinite (advance tm r (balanceReal (last ?pts)) (contributionReal (last ?pts)))"
    using loop_trunc [of 0 months pmt0 ageNow r inflM ix tm "jmax (Fin 0) pv"] m len
    by (simp add: simulateProjection_def)
  have "advance tm r (balanceReal (last ?pts)) (contributionReal (last ?pts))
      = runningBalance pv pmt0 r inflM ix tm (Suc n)"
    unfolding last sim_point [OF nl] by (simp add: contributionReal_snapshot)
  with tr show ?thesis unfolding n by simp
qed

lemma sim_full_iff:
  assumes m: "0 \<le> months"
  shows "length (simulateProjection pv pmt0 months ageNow r inflM ix tm) = nat months + 1
     \<longleftrightarrow> (\<forall>i<nat months. isFinite (runningBalance pv pmt0 r inflM ix tm (Suc i)))"
proof
  let ?pts = "simulateProjection pv pmt0 months ageNow r inflM ix tm"
  assume "length ?pts = nat months + 1"
  then show "\<forall>i<nat months. isFinite (runningBalance pv pmt0 r inflM ix tm (Suc i))"
    using sim_kept_finite [of _ pv pmt0 months ageNow r inflM ix tm] by simp
next
  let ?pts = "simulateProjection pv pmt0 months ageNow r inflM ix tm"
  assume a: "\<forall>i<nat months. isFinite (runningBalance pv pmt0 r inflM ix tm (Suc i))"
  show "length ?pts = nat months + 1"
  proof (rule ccontr)
    assume ne: "length ?pts \<noteq> nat months + 1"
    have le: "length ?pts \<le> nat months + 1"
      using loop_length_le [of 0 months pmt0 ageNow r inflM ix tm "jmax (Fin 0) pv"] m
      by (simp add: simulateProjection_def)
    have pos: "0 < length ?pts" using sim_nonempty [OF m, of pv pmt0 ageNow r inflM ix tm] by auto
    then obtain n where n: "length ?pts = Suc n" by (cases "length ?pts") auto
    with le ne have "n < nat months" by simp
    with a have "isFinite (runningBalance pv pmt0 r inflM ix tm (Suc n))" by simp
    with sim_truncated_at [OF m ne] n show False by simp
  qed
qed


text \<open>
  C3. For \<open>months \<ge> 0\<close> the trajectory has \<open>months + 1\<close> points, unless the update of
  the running balance from its last point gives a non-finite value, in which case it
  has at least one and at most \<open>months\<close> points. Point \<open>i\<close> is the snapshot of month
  \<open>i\<close> at the running balance after \<open>i\<close> updates from the seed \<open>max(0, pvToday)\<close>.
  The trajectory has \<open>months + 1\<close> points exactly when each of the \<open>months\<close> updates
  from the seed gives a finite balance; otherwise it stops at the first update that
  does not: every balance it keeps is finite and the next one is not.
\<close>

theorem simulateProjection_length:
  "0 \<le> months \<Longrightarrow>
   (length (simulateProjection pv pmt0 months ageNow r inflM ix tm) = nat months + 1
    \<or> (0 < length (simulateProjection pv pmt0 months ageNow r inflM ix tm)
       \<and> length (simulateProjection pv pmt0 months ageNow r inflM ix tm) \<le> nat months
       \<and> \<not> isFinite
           (if tm = Begin
            then jmul
              (jadd (balanceReal (last (simulateProjection pv pmt0 months ageNow r inflM ix tm)))
                    (contributionReal (last (simulateProjection pv pmt0 months ageNow r inflM ix tm))))
              (jadd (Fin 1) r)
            else jadd
              (jmul (balanceReal (last (simulateProjection pv pmt0 months ageNow r inflM ix tm)))
                    (jadd (Fin 1) r))
              (contributionReal (last (simulateProjection pv pmt0 months ageNow r inflM ix tm))))))
   \<and> (\<forall>i < length (simulateProjection pv pmt0 months ageNow r inflM ix tm).
        month (simulateProjection pv pmt0 months ageNow r inflM ix tm ! i) = i)
   \<and> (\<forall>i. Suc i < length (simulateProjection pv pmt0 months ageNow r inflM ix tm) \<longrightarrow>
        isFinite (balanceReal (simulateProjection pv pmt0 months ageNow r inflM ix tm ! Suc i)))
   \<and> (\<forall>i < length (simulateProjection pv pmt0 months ageNow r inflM ix tm).
        simulateProjection pv pmt0 months ageNow r inflM ix tm ! i
          = snapshot pmt0 ageNow inflM ix i (runningBalance pv pmt0 r inflM ix tm i))
   \<and> (length (simulateProjection pv pmt0 months ageNow r inflM ix tm) = nat months + 1
        \<longleftrightarrow> (\<forall>i<nat months. isFinite (runningBalance pv pmt0 r inflM ix tm (Suc i))))
   \<and> (\<forall>i. Suc i < length (simulateProjection pv pmt0 months ageNow r inflM ix tm) \<longrightarrow>
        isFinite (runningBalance pv pmt0 r inflM ix tm (Suc i)))
   \<and> (length (simulateProjection pv pmt0 months ageNow r inflM ix tm) \<noteq> nat months + 1 \<longrightarrow>
        \<not> isFinite (runningBalance pv pmt0 r inflM ix tm
             (length (simulateProjection pv pmt0 months ageNow r inflM ix tm))))"
proof (intro conjI allI impI)
  assume m: "0 \<le> months"
  let ?pts = "simulateProjection pv pmt0 months ageNow r inflM ix tm"
  have le: "length ?pts \<le> nat months + 1"
    unfolding simulateProjection_def
    using loop_length_le [of 0 months pmt0 ageNow r inflM ix tm "jmax (Fin 0) pv"] m by simp
  have ne: "0 < length ?pts" using sim_nonempty [OF m, of pv pmt0 ageNow r inflM ix tm] by auto
  have tr: "length ?pts \<noteq> nat months + 1 \<Longrightarrow>
     \<not> isFinite (advance tm r (balanceReal (last ?pts)) (contributionReal (last ?pts)))"
    unfolding simulateProjection_def
    using loop_trunc [of 0 months pmt0 ageNow r inflM ix tm "jmax (Fin 0) pv"] m by simp
  show "length ?pts = nat months + 1
    \<or> (0 < length ?pts \<and> length ?pts \<le> nat months
       \<and> \<not> isFinite
           (if tm = Begin
            then jmul (jadd (balanceReal (last ?pts)) (contributionReal (last ?pts)))
                   (jadd (Fin 1) r)
            else jadd (jmul (balanceReal (last ?pts)) (jadd (Fin 1) r))
                   (contributionReal (last ?pts))))"
  proof (cases "length ?pts = nat months + 1")
    case True
    then show ?thesis by simp
  next
    case False
    from tr [OF False] le ne False show ?thesis by (simp add: advance_def)
  qed
  show "length ?pts = nat months + 1
        \<longleftrightarrow> (\<forall>i<nat months. isFinite (runningBalance pv pmt0 r inflM ix tm (Suc i)))"
    using m by (rule sim_full_iff)
  show "\<not> isFinite (runningBalance pv pmt0 r inflM ix tm (length ?pts))"
    if "length ?pts \<noteq> nat months + 1"
    using m that by (rule sim_truncated_at)
next
  fix i
  assume "i < length (simulateProjection pv pmt0 months ageNow r inflM ix tm)"
  from sim_nth [OF this]
  show "month (simulateProjection pv pmt0 months ageNow r inflM ix tm ! i) = i"
    by (metis month_snapshot)
next
  fix i
  assume "Suc i < length (simulateProjection pv pmt0 months ageNow r inflM ix tm)"
  from sim_step [OF this]
  show "isFinite (balanceReal (simulateProjection pv pmt0 months ageNow r inflM ix tm ! Suc i))"
    by blast
next
  fix i
  assume "i < length (simulateProjection pv pmt0 months ageNow r inflM ix tm)"
  then show "simulateProjection pv pmt0 months ageNow r inflM ix tm ! i
          = snapshot pmt0 ageNow inflM ix i (runningBalance pv pmt0 r inflM ix tm i)"
    by (rule sim_point)
next
  fix i
  assume "Suc i < length (simulateProjection pv pmt0 months ageNow r inflM ix tm)"
  then show "isFinite (runningBalance pv pmt0 r inflM ix tm (Suc i))"
    by (rule sim_kept_finite)
qed

lemma sim_truncated_example:
  "simulateProjection (Fin 0) (Fin 1) 3 (Fin 30) (Fin 0) (Fin (- 1)) fixedNominal End
     = [snapshot (Fin 1) (Fin 30) (Fin (- 1)) fixedNominal 0 (Fin 0),
        snapshot (Fin 1) (Fin 30) (Fin (- 1)) fixedNominal 1 (Fin 1)]"
  by (simp add: simulateProjection_def jmax_def loop_unfold advance_def
        contributionReal_snapshot jpow_Fin)

lemma runningBalance_unit_example:
  "runningBalance (Fin 0) (Fin 1) (Fin 0) (Fin 0) inflationAdjusted End i = Fin (real i)"
  by (induction i) (simp_all add: jmax_def advance_def)

theorem simulateProjection_length_witness:
  "(0::int) \<le> 5
   \<and> length (simulateProjection (Fin 0) (Fin 1) 5 (Fin 30) (Fin 0) (Fin 0) inflationAdjusted End)
       = 6
   \<and> balanceReal
       (simulateProjection (Fin 0) (Fin 1) 5 (Fin 30) (Fin 0) (Fin 0) inflationAdjusted End ! 5)
       = Fin 5
   \<and> (0::int) \<le> 3
   \<and> length (simulateProjection (Fin 0) (Fin 1) 3 (Fin 30) (Fin 0) (Fin (- 1)) fixedNominal End) = 2
   \<and> \<not> isFinite (runningBalance (Fin 0) (Fin 1) (Fin 0) (Fin (- 1)) fixedNominal End 2)
   \<and> month (simulateProjection (Fin 0) (Fin 1) 3 (Fin 30) (Fin 0) (Fin (- 1)) fixedNominal End ! 1) = 1"
proof -
  have h: "(0::int) \<le> 5" by simp
  note full = simulateProjection_length
    [OF h, of "Fin 0" "Fin 1" "Fin 30" "Fin 0" "Fin 0" inflationAdjusted End]
  have fin: "\<forall>i<nat 5. isFinite
      (runningBalance (Fin 0) (Fin 1) (Fin 0) (Fin 0) inflationAdjusted End (Suc i))"
    by (simp only: runningBalance_unit_example isFinite.simps) simp
  from full fin have len: "length
      (simulateProjection (Fin 0) (Fin 1) 5 (Fin 30) (Fin 0) (Fin 0) inflationAdjusted End) = nat 5 + 1"
    by blast
  then have five: "5 < length
      (simulateProjection (Fin 0) (Fin 1) 5 (Fin 30) (Fin 0) (Fin 0) inflationAdjusted End)"
    by simp
  from full five have "simulateProjection (Fin 0) (Fin 1) 5 (Fin 30) (Fin 0) (Fin 0)
        inflationAdjusted End ! 5
      = snapshot (Fin 1) (Fin 30) (Fin 0) inflationAdjusted 5
          (runningBalance (Fin 0) (Fin 1) (Fin 0) (Fin 0) inflationAdjusted End 5)"
    by blast
  then have bal: "balanceReal (simulateProjection (Fin 0) (Fin 1) 5 (Fin 30) (Fin 0) (Fin 0)
        inflationAdjusted End ! 5) = Fin 5"
    by (simp add: runningBalance_unit_example)
  have h': "(0::int) \<le> 3" by simp
  note cut = simulateProjection_length
    [OF h', of "Fin 0" "Fin 1" "Fin 30" "Fin 0" "Fin (- 1)" fixedNominal End]
  have len': "length (simulateProjection (Fin 0) (Fin 1) 3 (Fin 30) (Fin 0) (Fin (- 1))
      fixedNominal End) = 2"
    unfolding sim_truncated_example by simp
  then have "length (simulateProjection (Fin 0) (Fin 1) 3 (Fin 30) (Fin 0) (Fin (- 1))
      fixedNominal End) \<noteq> nat 3 + 1" by simp
  with cut have "\<not> isFinite (runningBalance (Fin 0) (Fin 1) (Fin 0) (Fin (- 1)) fixedNominal End
      (length (simulateProjection (Fin 0) (Fin 1) 3 (Fin 30) (Fin 0) (Fin (- 1))
      fixedNominal End)))" by blast
  then have nf: "\<not> isFinite (runningBalance (Fin 0) (Fin 1) (Fin 0) (Fin (- 1)) fixedNominal End 2)"
    unfolding len' .
  have mo: "month (simulateProjection (Fin 0) (Fin 1) 3 (Fin 30) (Fin 0) (Fin (- 1))
      fixedNominal End ! 1) = 1"
    unfolding sim_truncated_example by simp
  from h len bal h' len' nf mo show ?thesis by simp
qed

text \<open>
  C8 (as amended). Across two successive points of a trajectory the month increases
  strictly (by one), and the inflation factor does not decrease whenever the monthly
  inflation rate is at least 0.
\<close>

theorem simulateProjection_trajectory_invariant:
  "Suc i < length (simulateProjection pv pmt0 months ageNow r inflM ix tm) \<Longrightarrow>
   month (simulateProjection pv pmt0 months ageNow r inflM ix tm ! i)
     < month (simulateProjection pv pmt0 months ageNow r inflM ix tm ! Suc i)
   \<and> (jle (Fin 0) inflM \<longrightarrow>
        jle (inflFactor (simulateProjection pv pmt0 months ageNow r inflM ix tm ! i))
            (inflFactor (simulateProjection pv pmt0 months ageNow r inflM ix tm ! Suc i)))"
proof -
  let ?pts = "simulateProjection pv pmt0 months ageNow r inflM ix tm"
  assume len: "Suc i < length ?pts"
  then have len': "i < length ?pts" by simp
  have m0: "month (?pts ! i) = i" and f0: "inflFactor (?pts ! i) = jpow (jadd (Fin 1) inflM) i"
    using sim_nth [OF len'] by (metis month_snapshot, metis inflFactor_snapshot)
  have m1: "month (?pts ! Suc i) = Suc i"
    and f1: "inflFactor (?pts ! Suc i) = jpow (jadd (Fin 1) inflM) (Suc i)"
    using sim_nth [OF len] by (metis month_snapshot, metis inflFactor_snapshot)
  show ?thesis
    unfolding m0 m1 f0 f1 using jpow_mono_step [of inflM i] by simp
qed

lemma sim_deflation_example:
  "simulateProjection (Fin 0) (Fin 0) 1 (Fin 30) (Fin 0) (Fin (- (1 / 2))) inflationAdjusted End
     = [snapshot (Fin 0) (Fin 30) (Fin (- (1 / 2))) inflationAdjusted 0 (Fin 0),
        snapshot (Fin 0) (Fin 30) (Fin (- (1 / 2))) inflationAdjusted 1 (Fin 0)]"
  by (simp add: simulateProjection_def jmax_def loop_unfold advance_def
        contributionReal_snapshot jpow_Fin)

theorem simulateProjection_trajectory_invariant_witness:
  "Suc 0 < length (simulateProjection (Fin 1000) (Fin 500) 2 (Fin 30) (Fin (1 / 100))
       (Fin (1 / 500)) inflationAdjusted End)
   \<and> jle (Fin 0) (Fin (1 / 500))
   \<and> jle (inflFactor (simulateProjection (Fin 1000) (Fin 500) 2 (Fin 30) (Fin (1 / 100))
       (Fin (1 / 500)) inflationAdjusted End ! 0))
          (inflFactor (simulateProjection (Fin 1000) (Fin 500) 2 (Fin 30) (Fin (1 / 100))
       (Fin (1 / 500)) inflationAdjusted End ! Suc 0))"
proof -
  have len: "Suc 0 < length (simulateProjection (Fin 1000) (Fin 500) 2 (Fin 30) (Fin (1 / 100))
       (Fin (1 / 500)) inflationAdjusted End)"
    by (simp add: simulateProjection_def jmax_def loop_unfold advance_def
        contributionReal_snapshot jpow_Fin)
  have h: "jle (Fin 0) (Fin (1 / 500))" by simp
  from simulateProjection_trajectory_invariant [OF len] h len show ?thesis by blast
qed

text \<open>
  With a monthly inflation rate of \<open>-1/2\<close>, which is above \<open>-1\<close>, the inflation
  factor falls from 1 at month 0 to \<open>1/2\<close> at month 1.
\<close>

theorem simulateProjection_trajectory_invariant_counterexample:
  "jge (Fin (- (1 / 2))) (Fin (- 1))
   \<and> length (simulateProjection (Fin 0) (Fin 0) 1 (Fin 30) (Fin 0) (Fin (- (1 / 2)))
        inflationAdjusted End) = 2
   \<and> \<not> jle (inflFactor (simulateProjection (Fin 0) (Fin 0) 1 (Fin 30) (Fin 0) (Fin (- (1 / 2)))
              inflationAdjusted End ! 0))
           (inflFactor (simulateProjection (Fin 0) (Fin 0) 1 (Fin 30) (Fin 0) (Fin (- (1 / 2)))
              inflationAdjusted End ! 1))"
  unfolding sim_deflation_example by (simp add: jge_def jpow_Fin)

text \<open>
  C9. The scenario of the test suite: present value 1000, contribution 500, two
  months, real rate 0.01, inflation 0.002, inflation-adjusted, end timing. The
  trajectory has 3 points and the nominal contribution of month 1 is 501, but the
  final real balance is \<open>(1000 * 1.01 + 500) * 1.01 + 500 = 2025.10\<close>, which is not
  within the test's tolerance of \<open>0.005\<close> (two decimal digits) of \<open>2025.05\<close>.
\<close>

theorem simulateProjection_test_scenario:
  "length (simulateProjection (Fin 1000) (Fin 500) 2 (Fin 30) (Fin 0.01) (Fin 0.002)
       inflationAdjusted End) = 3
   \<and> contributionNominal (simulateProjection (Fin 1000) (Fin 500) 2 (Fin 30) (Fin 0.01)
       (Fin 0.002) inflationAdjusted End ! 1) = Fin 501
   \<and> balanceReal (simulateProjection (Fin 1000) (Fin 500) 2 (Fin 30) (Fin 0.01)
       (Fin 0.002) inflationAdjusted End ! 2) = Fin 2025.1
   \<and> \<not> \<bar>(2025.1 :: real) - 2025.05\<bar> < 0.005"
  by (simp add: simulateProjection_def jmax_def loop_unfold advance_def snapshot_def
        jpow_Fin numeral_2_eq_2)

subsection \<open>The solvers\<close>

text \<open>
  C5 (as amended). When \<open>targetToday \<le> pvToday\<close>, \<open>monthsToTarget\<close> returns 0 whatever
  the other parameters are, and \<open>solveRequiredPmt\<close> returns 0 whenever \<open>months > 0\<close>;
  for \<open>months \<le> 0\<close> it returns \<open>null\<close>, the check of the horizon coming first.
\<close>

theorem target_already_met:
  "jle targetToday pvToday \<Longrightarrow>
   monthsToTarget pvToday pmt0 targetToday ageNow r inflM ix tm maxMonthsOpt = Some 0
   \<and> (0 < months \<longrightarrow>
        solveRequiredPmt pvToday targetToday months ageNow r inflM ix tm = Some (Fin 0))
   \<and> (months \<le> 0 \<longrightarrow>
        solveRequiredPmt pvToday targetToday months ageNow r inflM ix tm = None)"
  by (simp add: monthsToTarget_def solveRequiredPmt_def)

theorem target_already_met_witness:
  "jle (Fin 100) (Fin 250) \<and> (0::int) < 12
   \<and> monthsToTarget (Fin 250) (Fin 10) (Fin 100) (Fin 30) (Fin 0.01) (Fin 0.002)
        fixedNominal Begin None = Some 0
   \<and> solveRequiredPmt (Fin 250) (Fin 100) 12 (Fin 30) (Fin 0.01) (Fin 0.002)
        fixedNominal Begin = Some (Fin 0)"
proof -
  have h: "jle (Fin 100) (Fin 250)" and h': "(0::int) < 12" by simp_all
  from target_already_met [OF h, of "Fin 10" "Fin 30" "Fin 0.01" "Fin 0.002" fixedNominal Begin None 12]
    h h'
  show ?thesis by blast
qed

text \<open>
  With a horizon of 0 months \<open>solveRequiredPmt\<close> returns \<open>null\<close> although the target
  0 is below the present value 1.
\<close>

theorem target_already_met_counterexample:
  "jle (Fin 0) (Fin 1)
   \<and> solveRequiredPmt (Fin 1) (Fin 0) 0 (Fin 30) (Fin 0) (Fin 0) inflationAdjusted End
       \<noteq> Some (Fin 0)"
  by (simp add: solveRequiredPmt_def)

lemma mtt_unfold:
  "monthsToTarget_loop pmt0 targetToday r inflM ix tm maxMonths m bal =
     (if int m \<le> maxMonths then
        (let bal' = advance tm r bal
               (if ix = inflationAdjusted then pmt0
                else jdiv pmt0 (jpow (jadd (Fin 1) inflM) (m - 1)))
         in if \<not> isFinite bal' then None
            else if jge bal' targetToday then Some m
            else monthsToTarget_loop pmt0 targetToday r inflM ix tm maxMonths (m + 1) bal')
      else None)"
  by (subst monthsToTarget_loop.simps) (simp add: Let_def advance_def)

lemma mtt_step:
  assumes "int (Suc i) \<le> maxMonths"
  shows "monthsToTarget_loop pmt0 targetToday r inflM ix tm maxMonths (Suc i)
           (runningBalance pv pmt0 r inflM ix tm i)
       = (if \<not> isFinite (runningBalance pv pmt0 r inflM ix tm (Suc i)) then None
          else if jge (runningBalance pv pmt0 r inflM ix tm (Suc i)) targetToday then Some (Suc i)
          else monthsToTarget_loop pmt0 targetToday r inflM ix tm maxMonths (Suc (Suc i))
                 (runningBalance pv pmt0 r inflM ix tm (Suc i)))"
  using assms by (subst mtt_unfold) (simp add: Let_def)

lemma mtt_loop_char:
  "(monthsToTarget_loop pmt0 targetToday r inflM ix tm maxMonths (Suc i)
        (runningBalance pv pmt0 r inflM ix tm i) = Some k)
   \<longleftrightarrow> (Suc i \<le> k \<and> int k \<le> maxMonths
        \<and> (\<forall>j. Suc i \<le> j \<and> j \<le> k \<longrightarrow> isFinite (runningBalance pv pmt0 r inflM ix tm j))
        \<and> (\<forall>j. Suc i \<le> j \<and> j < k \<longrightarrow> \<not> jge (runningBalance pv pmt0 r inflM ix tm j) targetToday)
        \<and> jge (runningBalance pv pmt0 r inflM ix tm k) targetToday)"
proof (induction "nat (maxMonths + 1 - int (Suc i))" arbitrary: i)
  case 0
  then have out: "\<not> int (Suc i) \<le> maxMonths" by simp
  then have "monthsToTarget_loop pmt0 targetToday r inflM ix tm maxMonths (Suc i)
        (runningBalance pv pmt0 r inflM ix tm i) = None"
    by (subst mtt_unfold) simp
  moreover have "\<not> (Suc i \<le> k \<and> int k \<le> maxMonths)" using out by linarith
  ultimately show ?case by auto
next
  case (Suc n)
  let ?rb = "runningBalance pv pmt0 r inflM ix tm"
  have inb: "int (Suc i) \<le> maxMonths" using Suc.hyps(2) by simp
  have n: "n = nat (maxMonths + 1 - int (Suc (Suc i)))" using Suc.hyps(2) by simp
  note unf = mtt_step [OF inb, of pmt0 targetToday r inflM ix tm pv]
  show ?case
  proof (cases "isFinite (?rb (Suc i))")
    case False
    then have "monthsToTarget_loop pmt0 targetToday r inflM ix tm maxMonths (Suc i) (?rb i) = None"
      unfolding unf by simp
    moreover have "\<not> (Suc i \<le> k \<and> (\<forall>j. Suc i \<le> j \<and> j \<le> k \<longrightarrow> isFinite (?rb j)))"
      using False by auto
    ultimately show ?thesis by auto
  next
    case fin: True
    show ?thesis
    proof (cases "jge (?rb (Suc i)) targetToday")
      case True
      with fin have l: "monthsToTarget_loop pmt0 targetToday r inflM ix tm maxMonths (Suc i) (?rb i)
          = Some (Suc i)"
        unfolding unf by simp
      show ?thesis
      proof
        assume "monthsToTarget_loop pmt0 targetToday r inflM ix tm maxMonths (Suc i) (?rb i) = Some k"
        with l have "k = Suc i" by simp
        with inb fin True show "Suc i \<le> k \<and> int k \<le> maxMonths
          \<and> (\<forall>j. Suc i \<le> j \<and> j \<le> k \<longrightarrow> isFinite (?rb j))
          \<and> (\<forall>j. Suc i \<le> j \<and> j < k \<longrightarrow> \<not> jge (?rb j) targetToday)
          \<and> jge (?rb k) targetToday"
          by (auto simp: le_antisym)
      next
        assume a: "Suc i \<le> k \<and> int k \<le> maxMonths
          \<and> (\<forall>j. Suc i \<le> j \<and> j \<le> k \<longrightarrow> isFinite (?rb j))
          \<and> (\<forall>j. Suc i \<le> j \<and> j < k \<longrightarrow> \<not> jge (?rb j) targetToday)
          \<and> jge (?rb k) targetToday"
        have "k = Suc i"
        proof (rule ccontr)
          assume "k \<noteq> Suc i"
          with a have "Suc i < k" by simp
          with a have "\<not> jge (?rb (Suc i)) targetToday" by blast
          with True show False by simp
        qed
        with l show "monthsToTarget_loop pmt0 targetToday r inflM ix tm maxMonths (Suc i) (?rb i)
          = Some k" by simp
      qed
    next
      case False
      with fin have l: "monthsToTarget_loop pmt0 targetToday r inflM ix tm maxMonths (Suc i) (?rb i)
          = monthsToTarget_loop pmt0 targetToday r inflM ix tm maxMonths (Suc (Suc i)) (?rb (Suc i))"
        unfolding unf by simp
      note IH = Suc.hyps(1) [OF n]
      show ?thesis
      proof
        assume "monthsToTarget_loop pmt0 targetToday r inflM ix tm maxMonths (Suc i) (?rb i) = Some k"
        with l IH have b: "Suc (Suc i) \<le> k \<and> int k \<le> maxMonths
          \<and> (\<forall>j. Suc (Suc i) \<le> j \<and> j \<le> k \<longrightarrow> isFinite (?rb j))
          \<and> (\<forall>j. Suc (Suc i) \<le> j \<and> j < k \<longrightarrow> \<not> jge (?rb j) targetToday)
          \<and> jge (?rb k) targetToday"
          by simp
        have f: "isFinite (?rb j)" if "Suc i \<le> j \<and> j \<le> k" for j
        proof (cases "j = Suc i")
          case True
          with fin show ?thesis by simp
        next
          case False
          with that have "Suc (Suc i) \<le> j \<and> j \<le> k" by simp
          with b show ?thesis by blast
        qed
        have g: "\<not> jge (?rb j) targetToday" if "Suc i \<le> j \<and> j < k" for j
        proof (cases "j = Suc i")
          case True
          with \<open>\<not> jge (?rb (Suc i)) targetToday\<close> show ?thesis by simp
        next
          case False
          with that have "Suc (Suc i) \<le> j \<and> j < k" by simp
          with b show ?thesis by blast
        qed
        from b have "Suc i \<le> k" by simp
        with b f g show "Suc i \<le> k \<and> int k \<le> maxMonths
          \<and> (\<forall>j. Suc i \<le> j \<and> j \<le> k \<longrightarrow> isFinite (?rb j))
          \<and> (\<forall>j. Suc i \<le> j \<and> j < k \<longrightarrow> \<not> jge (?rb j) targetToday)
          \<and> jge (?rb k) targetToday"
          by blast
      next
        assume a: "Suc i \<le> k \<and> int k \<le> maxMonths
          \<and> (\<forall>j. Suc i \<le> j \<and> j \<le> k \<longrightarrow> isFinite (?rb j))
          \<and> (\<forall>j. Suc i \<le> j \<and> j < k \<longrightarrow> \<not> jge (?rb j) targetToday)
          \<and> jge (?rb k) targetToday"
        have "k \<noteq> Suc i" using a False by auto
        with a have k: "Suc (Suc i) \<le> k" by simp
        have f: "isFinite (?rb j)" if "Suc (Suc i) \<le> j \<and> j \<le> k" for j
        proof -
          from that have "Suc i \<le> j \<and> j \<le> k" by simp
          with a show ?thesis by blast
        qed
        have g: "\<not> jge (?rb j) targetToday" if "Suc (Suc i) \<le> j \<and> j < k" for j
        proof -
          from that have "Suc i \<le> j \<and> j < k" by simp
          with a show ?thesis by blast
        qed
        from a k f g have "Suc (Suc i) \<le> k \<and> int k \<le> maxMonths
          \<and> (\<forall>j. Suc (Suc i) \<le> j \<and> j \<le> k \<longrightarrow> isFinite (?rb j))
          \<and> (\<forall>j. Suc (Suc i) \<le> j \<and> j < k \<longrightarrow> \<not> jge (?rb j) targetToday)
          \<and> jge (?rb k) targetToday"
          by blast
        with IH l show "monthsToTarget_loop pmt0 targetToday r inflM ix tm maxMonths (Suc i) (?rb i)
          = Some k" by simp
      qed
    qed
  qed
qed

lemma monthsToTarget_char:
  assumes "\<not> jle targetToday pvToday"
  shows "(monthsToTarget pvToday pmt0 targetToday ageNow r inflM ix tm maxMonthsOpt = Some k)
   \<longleftrightarrow> (1 \<le> k \<and> int k \<le> (case maxMonthsOpt of None \<Rightarrow> 2400 | Some n \<Rightarrow> n)
        \<and> (\<forall>j. 1 \<le> j \<and> j \<le> k \<longrightarrow> isFinite (runningBalance pvToday pmt0 r inflM ix tm j))
        \<and> (\<forall>j. 1 \<le> j \<and> j < k \<longrightarrow>
              \<not> jge (runningBalance pvToday pmt0 r inflM ix tm j) targetToday)
        \<and> jge (runningBalance pvToday pmt0 r inflM ix tm k) targetToday)"
proof -
  have "monthsToTarget pvToday pmt0 targetToday ageNow r inflM ix tm maxMonthsOpt
      = monthsToTarget_loop pmt0 targetToday r inflM ix tm
          (case maxMonthsOpt of None \<Rightarrow> 2400 | Some n \<Rightarrow> n) (Suc 0)
          (runningBalance pvToday pmt0 r inflM ix tm 0)"
    using assms by (simp add: monthsToTarget_def)
  then show ?thesis
    using mtt_loop_char [of pmt0 targetToday r inflM ix tm
        "case maxMonthsOpt of None \<Rightarrow> 2400 | Some n \<Rightarrow> n" 0 pvToday k]
    by simp
qed


text \<open>
  C4. Under the \<open>fixedNominal\<close> policy \<open>monthsToTarget\<close>, when the target is not already
  met, returns the first period \<open>k \<ge> 1\<close> within \<open>maxMonths\<close> whose balance reaches
  the target, all balances up to it being finite, where the balance of period \<open>m \<ge> 1\<close>
  is obtained from that of period \<open>m - 1\<close> (the seed \<open>max(0, pvToday)\<close> for \<open>m = 1\<close>)
  with the real contribution \<open>pmt0 / (1 + inflationMonthlyRate)^(m-1)\<close>. The point
  of month \<open>m\<close> in the trajectory of \<open>simulateProjection\<close> carries the real
  contribution \<open>pmt0 / (1 + inflationMonthlyRate)^m\<close>. The offset is between the
  period index and the snapshot index only: the balance of snapshot \<open>m\<close> is the
  balance \<open>monthsToTarget\<close> has after period \<open>m\<close>.
\<close>

theorem contribution_offset:
  "(\<not> jle targetToday pv \<longrightarrow>
      (\<forall>k. monthsToTarget pv pmt0 targetToday ageNow r inflM fixedNominal tm maxMonthsOpt = Some k
         \<longleftrightarrow> (1 \<le> k \<and> int k \<le> (case maxMonthsOpt of None \<Rightarrow> 2400 | Some n \<Rightarrow> n)
              \<and> (\<forall>j. 1 \<le> j \<and> j \<le> k \<longrightarrow>
                    isFinite (runningBalance pv pmt0 r inflM fixedNominal tm j))
              \<and> (\<forall>j. 1 \<le> j \<and> j < k \<longrightarrow>
                    \<not> jge (runningBalance pv pmt0 r inflM fixedNominal tm j) targetToday)
              \<and> jge (runningBalance pv pmt0 r inflM fixedNominal tm k) targetToday)))
   \<and> runningBalance pv pmt0 r inflM fixedNominal tm 0 = jmax (Fin 0) pv
   \<and> (1 \<le> m \<longrightarrow>
        runningBalance pv pmt0 r inflM fixedNominal tm m =
          (if tm = Begin
           then jmul (jadd (runningBalance pv pmt0 r inflM fixedNominal tm (m - 1))
                           (jdiv pmt0 (jpow (jadd (Fin 1) inflM) (m - 1))))
                     (jadd (Fin 1) r)
           else jadd (jmul (runningBalance pv pmt0 r inflM fixedNominal tm (m - 1))
                           (jadd (Fin 1) r))
                     (jdiv pmt0 (jpow (jadd (Fin 1) inflM) (m - 1)))))
   \<and> (m < length (simulateProjection pv pmt0 months ageNow r inflM fixedNominal tm) \<longrightarrow>
        contributionReal (simulateProjection pv pmt0 months ageNow r inflM fixedNominal tm ! m)
          = jdiv pmt0 (jpow (jadd (Fin 1) inflM) m)
      \<and> balanceReal (simulateProjection pv pmt0 months ageNow r inflM fixedNominal tm ! m)
          = runningBalance pv pmt0 r inflM fixedNominal tm m)
   \<and> (1 \<le> m \<and> m < length (simulateProjection pv pmt0 months ageNow r inflM fixedNominal tm) \<longrightarrow>
        contributionReal
          (simulateProjection pv pmt0 months ageNow r inflM fixedNominal tm ! (m - 1))
          = jdiv pmt0 (jpow (jadd (Fin 1) inflM) (m - 1)))
   \<and> (1 \<le> m \<and> int m \<le> maxMonths \<longrightarrow>
        monthsToTarget_loop pmt0 targetToday r inflM fixedNominal tm maxMonths m bal =
          (let bal' =
             (if tm = Begin
              then jmul (jadd bal (jdiv pmt0 (jpow (jadd (Fin 1) inflM) (m - 1)))) (jadd (Fin 1) r)
              else jadd (jmul bal (jadd (Fin 1) r)) (jdiv pmt0 (jpow (jadd (Fin 1) inflM) (m - 1))))
           in if \<not> isFinite bal' then None
              else if jge bal' targetToday then Some m
              else monthsToTarget_loop pmt0 targetToday r inflM fixedNominal tm maxMonths
                     (m + 1) bal'))
   \<and> (1 \<le> m \<and> int m \<le> maxMonths
        \<and> m < length (simulateProjection pv pmt0 months ageNow r inflM fixedNominal tm) \<longrightarrow>
        monthsToTarget_loop pmt0 targetToday r inflM fixedNominal tm maxMonths m
          (balanceReal (simulateProjection pv pmt0 months ageNow r inflM fixedNominal tm ! (m - 1)))
        = (if jge (balanceReal (simulateProjection pv pmt0 months ageNow r inflM fixedNominal tm ! m))
                targetToday
           then Some m
           else monthsToTarget_loop pmt0 targetToday r inflM fixedNominal tm maxMonths (m + 1)
                  (balanceReal
                     (simulateProjection pv pmt0 months ageNow r inflM fixedNominal tm ! m))))"
proof (intro conjI impI allI)
  let ?pts = "simulateProjection pv pmt0 months ageNow r inflM fixedNominal tm"
  let ?rb = "runningBalance pv pmt0 r inflM fixedNominal tm"
  show "monthsToTarget pv pmt0 targetToday ageNow r inflM fixedNominal tm maxMonthsOpt = Some k
         \<longleftrightarrow> (1 \<le> k \<and> int k \<le> (case maxMonthsOpt of None \<Rightarrow> 2400 | Some n \<Rightarrow> n)
              \<and> (\<forall>j. 1 \<le> j \<and> j \<le> k \<longrightarrow> isFinite (?rb j))
              \<and> (\<forall>j. 1 \<le> j \<and> j < k \<longrightarrow> \<not> jge (?rb j) targetToday)
              \<and> jge (?rb k) targetToday)"
    if "\<not> jle targetToday pv" for k
    using that by (rule monthsToTarget_char)
  show "?rb 0 = jmax (Fin 0) pv" by simp
  show "?rb m =
          (if tm = Begin
           then jmul (jadd (?rb (m - 1)) (jdiv pmt0 (jpow (jadd (Fin 1) inflM) (m - 1))))
                     (jadd (Fin 1) r)
           else jadd (jmul (?rb (m - 1)) (jadd (Fin 1) r))
                     (jdiv pmt0 (jpow (jadd (Fin 1) inflM) (m - 1))))"
    if "1 \<le> m"
  proof -
    from that obtain i where "m = Suc i" by (cases m) auto
    then show ?thesis by (simp add: advance_def)
  qed
  show "contributionReal (?pts ! m) = jdiv pmt0 (jpow (jadd (Fin 1) inflM) m)"
    if "m < length ?pts"
    using sim_point [OF that] by (simp add: contributionReal_snapshot)
  show "balanceReal (?pts ! m) = ?rb m" if "m < length ?pts"
    using that by (rule sim_balance)
  show "contributionReal (?pts ! (m - 1)) = jdiv pmt0 (jpow (jadd (Fin 1) inflM) (m - 1))"
    if "1 \<le> m \<and> m < length ?pts"
  proof -
    from that have "m - 1 < length ?pts" by arith
    from sim_point [OF this] show ?thesis by (simp add: contributionReal_snapshot)
  qed
  show "monthsToTarget_loop pmt0 targetToday r inflM fixedNominal tm maxMonths m bal =
          (let bal' =
             (if tm = Begin
              then jmul (jadd bal (jdiv pmt0 (jpow (jadd (Fin 1) inflM) (m - 1)))) (jadd (Fin 1) r)
              else jadd (jmul bal (jadd (Fin 1) r)) (jdiv pmt0 (jpow (jadd (Fin 1) inflM) (m - 1))))
           in if \<not> isFinite bal' then None
              else if jge bal' targetToday then Some m
              else monthsToTarget_loop pmt0 targetToday r inflM fixedNominal tm maxMonths
                     (m + 1) bal')"
    if "1 \<le> m \<and> int m \<le> maxMonths"
    using that by (subst mtt_unfold) (simp add: advance_def Let_def)
  show "monthsToTarget_loop pmt0 targetToday r inflM fixedNominal tm maxMonths m
          (balanceReal (?pts ! (m - 1)))
        = (if jge (balanceReal (?pts ! m)) targetToday then Some m
           else monthsToTarget_loop pmt0 targetToday r inflM fixedNominal tm maxMonths (m + 1)
                  (balanceReal (?pts ! m)))"
    if a: "1 \<le> m \<and> int m \<le> maxMonths \<and> m < length ?pts"
  proof -
    from a obtain i where i: "m = Suc i" by (cases m) auto
    have li: "i < length ?pts" and lm: "Suc i < length ?pts" using a i by simp_all
    have mx: "int (Suc i) \<le> maxMonths" using a i by simp
    have fin: "isFinite (?rb (Suc i))" using lm by (rule sim_kept_finite)
    show ?thesis
      unfolding i using fin
      by (simp only: diff_Suc_1 sim_balance [OF li] sim_balance [OF lm] mtt_step [OF mx]
            Suc_eq_plus1 [symmetric] if_True if_False not_True_eq_False)
  qed
qed


lemma sim_fixedNominal_example:
  "simulateProjection (Fin 0) (Fin 100) 2 (Fin 30) (Fin 0) (Fin 1) fixedNominal End
     = [snapshot (Fin 100) (Fin 30) (Fin 1) fixedNominal 0 (Fin 0),
        snapshot (Fin 100) (Fin 30) (Fin 1) fixedNominal 1 (Fin 100),
        snapshot (Fin 100) (Fin 30) (Fin 1) fixedNominal 2 (Fin 150)]"
  by (simp add: simulateProjection_def jmax_def loop_unfold advance_def
        contributionReal_snapshot jpow_Fin numeral_2_eq_2)

lemma monthsToTarget_fixedNominal_example:
  "monthsToTarget (Fin 0) (Fin 100) (Fin 120) (Fin 30) (Fin 0) (Fin 1) fixedNominal End (Some 10)
     = Some 2"
  by (simp add: monthsToTarget_def jmax_def mtt_unfold advance_def jpow_Fin jge_def Let_def)

theorem contribution_offset_witness:
  "\<not> jle (Fin 120) (Fin 0) \<and> (1::nat) \<le> 1 \<and> int 1 \<le> 10
   \<and> 1 < length (simulateProjection (Fin 0) (Fin 100) 2 (Fin 30) (Fin 0) (Fin 1) fixedNominal End)
   \<and> monthsToTarget (Fin 0) (Fin 100) (Fin 120) (Fin 30) (Fin 0) (Fin 1) fixedNominal End (Some 10)
       = Some 2
   \<and> jge (runningBalance (Fin 0) (Fin 100) (Fin 0) (Fin 1) fixedNominal End 2) (Fin 120)
   \<and> runningBalance (Fin 0) (Fin 100) (Fin 0) (Fin 1) fixedNominal End 1
       = jadd (jmul (runningBalance (Fin 0) (Fin 100) (Fin 0) (Fin 1) fixedNominal End (1 - 1))
                    (jadd (Fin 1) (Fin 0)))
              (jdiv (Fin 100) (jpow (jadd (Fin 1) (Fin 1)) (1 - 1)))
   \<and> contributionReal
        (simulateProjection (Fin 0) (Fin 100) 2 (Fin 30) (Fin 0) (Fin 1) fixedNominal End ! 1)
       = Fin 50
   \<and> contributionReal
        (simulateProjection (Fin 0) (Fin 100) 2 (Fin 30) (Fin 0) (Fin 1) fixedNominal End ! (1 - 1))
       = Fin 100
   \<and> monthsToTarget_loop (Fin 100) (Fin 120) (Fin 0) (Fin 1) fixedNominal End 10 1 (Fin 0)
       = monthsToTarget_loop (Fin 100) (Fin 120) (Fin 0) (Fin 1) fixedNominal End 10 (1 + 1) (Fin 100)"
proof -
  have h0: "\<not> jle (Fin 120) (Fin 0)" by simp
  have h1: "(1::nat) \<le> 1" and h2: "int 1 \<le> 10" by simp_all
  have h3: "1 < length (simulateProjection (Fin 0) (Fin 100) 2 (Fin 30) (Fin 0) (Fin 1)
      fixedNominal End)"
    unfolding sim_fixedNominal_example by simp
  note inst = contribution_offset [of "Fin 120" "Fin 0" "Fin 100" "Fin 30" "Fin 0" "Fin 1" End
      "Some 10" 1 2 10 "Fin 0"]
  from inst h0 monthsToTarget_fixedNominal_example
  have a: "jge (runningBalance (Fin 0) (Fin 100) (Fin 0) (Fin 1) fixedNominal End 2) (Fin 120)"
    by blast
  from inst h1
  have b: "runningBalance (Fin 0) (Fin 100) (Fin 0) (Fin 1) fixedNominal End 1
       = jadd (jmul (runningBalance (Fin 0) (Fin 100) (Fin 0) (Fin 1) fixedNominal End (1 - 1))
                    (jadd (Fin 1) (Fin 0)))
              (jdiv (Fin 100) (jpow (jadd (Fin 1) (Fin 1)) (1 - 1)))"
    by simp
  from inst h1 h3
  have c: "contributionReal
        (simulateProjection (Fin 0) (Fin 100) 2 (Fin 30) (Fin 0) (Fin 1) fixedNominal End ! 1)
       = jdiv (Fin 100) (jpow (jadd (Fin 1) (Fin 1)) 1)"
    and d: "contributionReal
        (simulateProjection (Fin 0) (Fin 100) 2 (Fin 30) (Fin 0) (Fin 1) fixedNominal End ! (1 - 1))
       = jdiv (Fin 100) (jpow (jadd (Fin 1) (Fin 1)) (1 - 1))"
    by blast+
  have e: "monthsToTarget_loop (Fin 100) (Fin 120) (Fin 0) (Fin 1) fixedNominal End 10 1 (Fin 0)
       = monthsToTarget_loop (Fin 100) (Fin 120) (Fin 0) (Fin 1) fixedNominal End 10 (1 + 1) (Fin 100)"
    by (subst mtt_unfold) (simp add: advance_def jge_def Let_def)
  from h0 h1 h2 h3 monthsToTarget_fixedNominal_example a b c d e show ?thesis
    by (simp add: jpow_Fin)
qed

subsection \<open>The bracketing phase of the contribution solver\<close>

lemma jmul_one [simp]: "jmul h (Fin 1) = h"
  by (cases h) simp_all

lemma double_shift: "jmul (jmul h (Fin 2)) (Fin (2 ^ j)) = jmul h (Fin (2 ^ Suc j))"
  by (cases h) (simp_all add: mult.assoc)

lemma bracket_Some:
  "guard \<le> 60 \<Longrightarrow> bracket reach high guard = Some h' \<Longrightarrow>
   \<exists>k. guard + k \<le> 60 \<and> h' = jmul high (Fin (2 ^ k))
     \<and> (\<forall>j<k. \<not> reach (jmul high (Fin (2 ^ j))))
     \<and> (\<forall>j. 1 \<le> j \<and> j \<le> k \<longrightarrow> \<not> jgt (jmul high (Fin (2 ^ j))) (Fin 1000000000))
     \<and> (reach h' \<or> guard + k = 60)"
proof (induction "60 - guard" arbitrary: high guard)
  case 0
  then have g: "guard = 60" by simp
  with 0 have "h' = high" by (subst (asm) bracket.simps) simp
  with g show ?case by (intro exI [of _ 0]) simp
next
  case (Suc n)
  then have g: "guard < 60" by simp
  show ?case
  proof (cases "reach high")
    case True
    with Suc.prems have "h' = high" by (subst (asm) bracket.simps) simp
    with True g show ?thesis by (intro exI [of _ 0]) simp
  next
    case False
    let ?high' = "jmul high (Fin 2)"
    have ng: "\<not> jgt ?high' (Fin 1000000000)"
      using Suc.prems(2) False g by (subst (asm) bracket.simps) (auto simp: Let_def split: if_splits)
    have rec: "bracket reach ?high' (guard + 1) = Some h'"
      using Suc.prems(2) False g ng by (subst (asm) bracket.simps) (simp add: Let_def)
    have n: "n = 60 - (guard + 1)" using Suc.hyps(2) by simp
    have g': "guard + 1 \<le> 60" using g by simp
    from Suc.hyps(1) [OF n g' rec] obtain k where k:
      "guard + 1 + k \<le> 60" "h' = jmul ?high' (Fin (2 ^ k))"
      "\<forall>j<k. \<not> reach (jmul ?high' (Fin (2 ^ j)))"
      "\<forall>j. 1 \<le> j \<and> j \<le> k \<longrightarrow> \<not> jgt (jmul ?high' (Fin (2 ^ j))) (Fin 1000000000)"
      "reach h' \<or> guard + 1 + k = 60"
      by blast
    have a: "guard + Suc k \<le> 60" using k(1) by simp
    have b: "h' = jmul high (Fin (2 ^ Suc k))" using k(2) by (simp only: double_shift)
    have c: "\<forall>j<Suc k. \<not> reach (jmul high (Fin (2 ^ j)))"
    proof (intro allI impI)
      fix j assume j: "j < Suc k"
      show "\<not> reach (jmul high (Fin (2 ^ j)))"
      proof (cases j)
        case 0
        with False show ?thesis by simp
      next
        case (Suc j')
        with j k(3) have "\<not> reach (jmul ?high' (Fin (2 ^ j')))" by simp
        then show ?thesis unfolding Suc double_shift .
      qed
    qed
    have d: "\<forall>j. 1 \<le> j \<and> j \<le> Suc k \<longrightarrow> \<not> jgt (jmul high (Fin (2 ^ j))) (Fin 1000000000)"
    proof (intro allI impI)
      fix j assume j: "1 \<le> j \<and> j \<le> Suc k"
      then obtain j' where j': "j = Suc j'" by (cases j) auto
      show "\<not> jgt (jmul high (Fin (2 ^ j))) (Fin 1000000000)"
      proof (cases j')
        case 0
        with ng j' show ?thesis by simp
      next
        case (Suc i)
        with j j' have "1 \<le> j' \<and> j' \<le> k" by simp
        with k(4) have "\<not> jgt (jmul ?high' (Fin (2 ^ j'))) (Fin 1000000000)" by blast
        then show ?thesis unfolding j' double_shift .
      qed
    qed
    have e: "reach h' \<or> guard + Suc k = 60" using k(5) by simp
    from a b c d e show ?thesis by blast
  qed
qed

lemma bracket_None:
  "guard \<le> 60 \<Longrightarrow> bracket reach high guard = None \<Longrightarrow>
   \<exists>k. guard + k < 60
     \<and> (\<forall>j\<le>k. \<not> reach (jmul high (Fin (2 ^ j))))
     \<and> jgt (jmul high (Fin (2 ^ Suc k))) (Fin 1000000000)"
proof (induction "60 - guard" arbitrary: high guard)
  case 0
  then have g: "guard = 60" by simp
  with 0 show ?case by (subst (asm) bracket.simps) simp
next
  case (Suc n)
  then have g: "guard < 60" by simp
  have nr: "\<not> reach high"
    using Suc.prems(2) by (subst (asm) bracket.simps) (auto split: if_splits)
  let ?high' = "jmul high (Fin 2)"
  show ?case
  proof (cases "jgt ?high' (Fin 1000000000)")
    case True
    with nr g show ?thesis by (intro exI [of _ 0]) simp
  next
    case False
    have rec: "bracket reach ?high' (guard + 1) = None"
      using Suc.prems(2) False g nr by (subst (asm) bracket.simps) (simp add: Let_def)
    have n: "n = 60 - (guard + 1)" using Suc.hyps(2) by simp
    have g': "guard + 1 \<le> 60" using g by simp
    from Suc.hyps(1) [OF n g' rec] obtain k where k:
      "guard + 1 + k < 60"
      "\<forall>j\<le>k. \<not> reach (jmul ?high' (Fin (2 ^ j)))"
      "jgt (jmul ?high' (Fin (2 ^ Suc k))) (Fin 1000000000)"
      by blast
    have a: "guard + Suc k < 60" using k(1) by simp
    have c: "\<forall>j\<le>Suc k. \<not> reach (jmul high (Fin (2 ^ j)))"
    proof (intro allI impI)
      fix j assume j: "j \<le> Suc k"
      show "\<not> reach (jmul high (Fin (2 ^ j)))"
      proof (cases j)
        case 0
        with nr show ?thesis by simp
      next
        case (Suc j')
        with j k(2) have "\<not> reach (jmul ?high' (Fin (2 ^ j')))" by simp
        then show ?thesis unfolding Suc double_shift .
      qed
    qed
    have d: "jgt (jmul high (Fin (2 ^ Suc (Suc k)))) (Fin 1000000000)"
      using k(3) unfolding double_shift .
    from a c d show ?thesis by blast
  qed
qed

lemma first_guess_ge_one:
  assumes "0 < months" "jgt targetToday pvToday"
  shows "jmax (Fin 1) (jdiv (jsub targetToday pvToday) (Fin (real_of_int months))) = PInf
       \<or> (\<exists>x. jmax (Fin 1) (jdiv (jsub targetToday pvToday) (Fin (real_of_int months))) = Fin x
              \<and> 1 \<le> x)"
  using assms
  by (cases targetToday; cases pvToday) (auto simp: jgt_def jsub_def jmax_def)

lemma big_after_60:
  assumes "h = PInf \<or> (\<exists>x. h = Fin x \<and> 1 \<le> x)"
  shows "jgt (jmul h (Fin (2 ^ 60))) (Fin 1000000000)"
proof -
  from assms consider "h = PInf" | x where "h = Fin x" "1 \<le> x" by blast
  then show ?thesis
  proof cases
    case 1
    then show ?thesis by (simp add: jgt_def)
  next
    case 2
    have "(1000000000::real) < 1 * 2 ^ 60" by simp
    also have "\<dots> \<le> x * 2 ^ 60" using 2(2) by (intro mult_right_mono) simp_all
    finally show ?thesis using 2(1) by (simp add: jgt_def)
  qed
qed


text \<open>
  C6. In \<open>solveRequiredPmt\<close> with \<open>months > 0\<close> and \<open>targetToday > pvToday\<close>, let
  \<open>high\<^sub>0 = max(1, (targetToday - pvToday) / months)\<close>. The bracketing phase visits
  \<open>high\<^sub>0 * 2^k\<close> for \<open>k = 0, 1, \<dots>\<close>, at most 60 doublings. If \<open>reaches\<close> holds at
  none of these values the function returns \<open>null\<close>. It returns \<open>null\<close> only after
  fewer than 60 doublings, all without success, the next of which exceeds \<open>1e9\<close>; and
  when it returns a contribution, \<open>reaches\<close> held at some \<open>high\<^sub>0 * 2^k\<close> that does
  not exceed \<open>1e9\<close> (\<open>k \<ge> 1\<close>), the first one along the doubling, from which the
  bisection starts.
\<close>

theorem solveRequiredPmt_bracketing:
  "0 < months \<Longrightarrow> jgt targetToday pvToday \<Longrightarrow>
   (let reach = reaches pvToday targetToday months ageNow r inflM ix tm;
        high0 = jmax (Fin 1) (jdiv (jsub targetToday pvToday) (Fin (real_of_int months)))
    in ((\<forall>k\<le>60. \<not> reach (jmul high0 (Fin (2 ^ k)))) \<longrightarrow>
          solveRequiredPmt pvToday targetToday months ageNow r inflM ix tm = None)
     \<and> (solveRequiredPmt pvToday targetToday months ageNow r inflM ix tm = None \<longrightarrow>
          (\<exists>k<60. (\<forall>j\<le>k. \<not> reach (jmul high0 (Fin (2 ^ j))))
                \<and> jgt (jmul high0 (Fin (2 ^ Suc k))) (Fin 1000000000)))
     \<and> (\<forall>v. solveRequiredPmt pvToday targetToday months ageNow r inflM ix tm = Some v \<longrightarrow>
          (\<exists>k<60. reach (jmul high0 (Fin (2 ^ k)))
                \<and> (\<forall>j<k. \<not> reach (jmul high0 (Fin (2 ^ j))))
                \<and> (\<forall>j. 1 \<le> j \<and> j \<le> k \<longrightarrow>
                      \<not> jgt (jmul high0 (Fin (2 ^ j))) (Fin 1000000000))
                \<and> v = jmax (Fin 0) (bisect reach 70 (Fin 0) (jmul high0 (Fin (2 ^ k)))))))"
proof -
  assume m: "0 < months" and t: "jgt targetToday pvToday"
  define reach where "reach = reaches pvToday targetToday months ageNow r inflM ix tm"
  define high0 where
    "high0 = jmax (Fin 1) (jdiv (jsub targetToday pvToday) (Fin (real_of_int months)))"
  have nle: "\<not> jle targetToday pvToday"
    using t by (cases targetToday; cases pvToday) (simp_all add: jgt_def)
  have solve: "solveRequiredPmt pvToday targetToday months ageNow r inflM ix tm =
      (case bracket reach high0 0 of None \<Rightarrow> None
       | Some high' \<Rightarrow> Some (jmax (Fin 0) (bisect reach 70 (Fin 0) high')))"
    unfolding reach_def high0_def using m nle by (simp add: solveRequiredPmt_def Let_def)
  have h0: "high0 = PInf \<or> (\<exists>x. high0 = Fin x \<and> 1 \<le> x)"
    unfolding high0_def using m t by (rule first_guess_ge_one)
  have some: "\<exists>k<60. reach (jmul high0 (Fin (2 ^ k)))
                \<and> (\<forall>j<k. \<not> reach (jmul high0 (Fin (2 ^ j))))
                \<and> (\<forall>j. 1 \<le> j \<and> j \<le> k \<longrightarrow>
                      \<not> jgt (jmul high0 (Fin (2 ^ j))) (Fin 1000000000))
                \<and> v = jmax (Fin 0) (bisect reach 70 (Fin 0) (jmul high0 (Fin (2 ^ k))))"
    if v: "solveRequiredPmt pvToday targetToday months ageNow r inflM ix tm = Some v" for v
  proof -
    from v solve obtain h' where h': "bracket reach high0 0 = Some h'"
      and vh: "v = jmax (Fin 0) (bisect reach 70 (Fin 0) h')"
      by (cases "bracket reach high0 0") auto
    from bracket_Some [OF _ h'] obtain k where k:
      "k \<le> 60" "h' = jmul high0 (Fin (2 ^ k))"
      "\<forall>j<k. \<not> reach (jmul high0 (Fin (2 ^ j)))"
      "\<forall>j. 1 \<le> j \<and> j \<le> k \<longrightarrow> \<not> jgt (jmul high0 (Fin (2 ^ j))) (Fin 1000000000)"
      "reach h' \<or> k = 60"
      by auto
    have k60: "k \<noteq> 60"
    proof
      assume "k = 60"
      then have "(1::nat) \<le> 60 \<and> (60::nat) \<le> k" by simp
      with k(4) have "\<not> jgt (jmul high0 (Fin (2 ^ 60))) (Fin 1000000000)" by blast
      with big_after_60 [OF h0] show False by blast
    qed
    with k(1,5) have "k < 60" "reach (jmul high0 (Fin (2 ^ k)))" unfolding k(2) by simp_all
    with k(2,3,4) vh show ?thesis by blast
  qed
  have none: "\<exists>k<60. (\<forall>j\<le>k. \<not> reach (jmul high0 (Fin (2 ^ j))))
                \<and> jgt (jmul high0 (Fin (2 ^ Suc k))) (Fin 1000000000)"
    if n: "solveRequiredPmt pvToday targetToday months ageNow r inflM ix tm = None"
  proof -
    from n solve have "bracket reach high0 0 = None"
      by (cases "bracket reach high0 0") auto
    from bracket_None [OF _ this] show ?thesis by auto
  qed
  have never: "solveRequiredPmt pvToday targetToday months ageNow r inflM ix tm = None"
    if a: "\<forall>k\<le>60. \<not> reach (jmul high0 (Fin (2 ^ k)))"
  proof (cases "solveRequiredPmt pvToday targetToday months ageNow r inflM ix tm")
    case None
    then show ?thesis .
  next
    case (Some v)
    from some [OF this] obtain k where "k < 60" "reach (jmul high0 (Fin (2 ^ k)))" by blast
    with a show ?thesis by auto
  qed
  show ?thesis
    unfolding Let_def reach_def [symmetric] high0_def [symmetric]
    using never none some by blast
qed


lemma total_loss_never_reaches:
  "\<not> reaches (Fin 0) (Fin 10) 1 (Fin 30) (Fin (- 1)) (Fin 0) inflationAdjusted Begin (Fin x)"
  by (simp add: reaches_def finalBalanceReal_def simulateProjection_def jmax_def loop_unfold
        advance_def contributionReal_snapshot jge_def Let_def)

theorem solveRequiredPmt_bracketing_witness:
  "(0::int) < 1 \<and> jgt (Fin 10) (Fin 0)
   \<and> solveRequiredPmt (Fin 0) (Fin 10) 1 (Fin 30) (Fin (- 1)) (Fin 0) inflationAdjusted Begin
       = None"
proof -
  have h1: "(0::int) < 1" and h2: "jgt (Fin 10) (Fin 0)" by (simp_all add: jgt_def)
  have h0: "jmax (Fin 1) (jdiv (jsub (Fin 10) (Fin 0)) (Fin (real_of_int 1))) = Fin 10"
    by (simp add: jmax_def jsub_def)
  have nr: "\<forall>k\<le>60. \<not> reaches (Fin 0) (Fin 10) 1 (Fin 30) (Fin (- 1)) (Fin 0)
      inflationAdjusted Begin (jmul (Fin 10) (Fin (2 ^ k)))"
    by (simp only: jmul.simps total_loss_never_reaches) simp
  from solveRequiredPmt_bracketing [OF h1 h2, of "Fin 30" "Fin (- 1)" "Fin 0" inflationAdjusted Begin]
  have "solveRequiredPmt (Fin 0) (Fin 10) 1 (Fin 30) (Fin (- 1)) (Fin 0) inflationAdjusted Begin
       = None"
    unfolding Let_def h0 using nr by blast
  with h1 h2 show ?thesis by blast
qed

subsection \<open>Monotonicity in the base contribution\<close>

lemma isFinite_jadd: "isFinite (jadd x y) \<Longrightarrow> isFinite x \<and> isFinite y"
  by (cases x; cases y) simp_all

lemma isFinite_jmul: "isFinite (jmul x y) \<Longrightarrow> isFinite x \<and> isFinite y"
  by (cases x; cases y) (simp_all split: if_splits)

lemma isFinite_Fin: "isFinite x \<Longrightarrow> \<exists>a. x = Fin a"
  by (cases x) simp_all

lemma advance_finite:
  "isFinite (advance tm r bal c) \<Longrightarrow>
   isFinite bal \<and> isFinite c \<and> isFinite (jadd (Fin 1) r)"
proof -
  assume f: "isFinite (advance tm r bal c)"
  show ?thesis
  proof (cases "tm = Begin")
    case True
    with f have "isFinite (jmul (jadd bal c) (jadd (Fin 1) r))" by (simp add: advance_def)
    from isFinite_jmul [OF this] isFinite_jadd [of bal c] show ?thesis by blast
  next
    case False
    with f have "isFinite (jadd (jmul bal (jadd (Fin 1) r)) c)" by (simp add: advance_def)
    from isFinite_jadd [OF this] isFinite_jmul [of bal "jadd (Fin 1) r"] show ?thesis by blast
  qed
qed

lemma advance_mono:
  assumes k: "jle (Fin 0) (jadd (Fin 1) r)"
    and ab: "jle a b" and c: "jle ca cb"
    and fa: "isFinite (advance tm r a ca)" and fb: "isFinite (advance tm r b cb)"
  shows "jle (advance tm r a ca) (advance tm r b cb)"
proof -
  from advance_finite [OF fa] advance_finite [OF fb]
  obtain a' b' ca' cb' k' where v: "a = Fin a'" "b = Fin b'" "ca = Fin ca'" "cb = Fin cb'"
      "jadd (Fin 1) r = Fin k'"
    by (meson isFinite_Fin)
  from k ab c have le: "0 \<le> k'" "a' \<le> b'" "ca' \<le> cb'" unfolding v by simp_all
  have "(a' + ca') * k' \<le> (b' + cb') * k'"
    using le by (intro mult_right_mono add_mono) simp_all
  moreover have "a' * k' + ca' \<le> b' * k' + cb'"
    using le by (intro add_mono mult_right_mono) simp_all
  ultimately show ?thesis unfolding advance_def v by simp
qed

lemma jpow_pos:
  assumes "jlt (Fin 0) x"
  shows "jpow x n = PInf \<or> (\<exists>y. jpow x n = Fin y \<and> 0 < y)"
proof (cases x)
  case (Fin a)
  with assms have "0 < a" by simp
  then have "0 < a ^ n" by simp
  with Fin show ?thesis by (simp add: jpow_Fin)
next
  case PInf
  then show ?thesis by (cases n) simp_all
next
  case NInf
  with assms show ?thesis by simp
next
  case NaN
  with assms show ?thesis by simp
qed

lemma jdiv_mono:
  assumes "jle p q" and "f = PInf \<or> (\<exists>y. f = Fin y \<and> 0 < y)"
    and "isFinite (jdiv p f)" and "isFinite (jdiv q f)"
  shows "jle (jdiv p f) (jdiv q f)"
  using assms
  by (cases p; cases q) (auto simp: divide_right_mono split: if_splits)

lemma contribution_mono:
  assumes "jle pa pb"
    and "ix = inflationAdjusted \<or> jlt (Fin 0) (jadd (Fin 1) inflM)"
    and "isFinite (contributionReal (snapshot pa ageNow inflM ix m a))"
    and "isFinite (contributionReal (snapshot pb ageNow inflM ix m b))"
  shows "jle (contributionReal (snapshot pa ageNow inflM ix m a))
             (contributionReal (snapshot pb ageNow inflM ix m b))"
proof (cases "ix = inflationAdjusted")
  case True
  with assms(1) show ?thesis by (simp add: contributionReal_snapshot)
next
  case False
  with assms(2) have "jlt (Fin 0) (jadd (Fin 1) inflM)" by simp
  from jpow_pos [OF this, of m] assms(1,3,4) False show ?thesis
    by (simp add: contributionReal_snapshot jdiv_mono)
qed

lemma loop_mono:
  assumes k: "jle (Fin 0) (jadd (Fin 1) r)"
    and c: "ix = inflationAdjusted \<or> jlt (Fin 0) (jadd (Fin 1) inflM)"
    and p: "jle pa pb"
  shows "int m \<le> months \<Longrightarrow> jle a b \<Longrightarrow>
     length (simulateProjection_loop pa months ageNow r inflM ix tm m a)
       = nat (months - int m) + 1 \<Longrightarrow>
     length (simulateProjection_loop pb months ageNow r inflM ix tm m b)
       = nat (months - int m) + 1 \<Longrightarrow>
     jle (balanceReal (last (simulateProjection_loop pa months ageNow r inflM ix tm m a)))
         (balanceReal (last (simulateProjection_loop pb months ageNow r inflM ix tm m b)))"
proof (induction "nat (months - int m)" arbitrary: m a b)
  case 0
  then have eq: "int m = months" by simp
  have "simulateProjection_loop pa months ageNow r inflM ix tm m a
          = [snapshot pa ageNow inflM ix m a]"
    and "simulateProjection_loop pb months ageNow r inflM ix tm m b
          = [snapshot pb ageNow inflM ix m b]"
    using eq by (subst loop_unfold, simp)+
  with 0 show ?case by simp
next
  case (Suc n)
  let ?ca = "contributionReal (snapshot pa ageNow inflM ix m a)"
  let ?cb = "contributionReal (snapshot pb ageNow inflM ix m b)"
  let ?La = "simulateProjection_loop pa months ageNow r inflM ix tm (Suc m) (advance tm r a ?ca)"
  let ?Lb = "simulateProjection_loop pb months ageNow r inflM ix tm (Suc m) (advance tm r b ?cb)"
  have lt: "int m < months" using Suc.hyps(2) by simp
  have n: "n = nat (months - int (Suc m))" using Suc.hyps(2) by simp
  have le': "int (Suc m) \<le> months" using lt by simp
  have A: "isFinite (advance tm r a ?ca) \<and>
      simulateProjection_loop pa months ageNow r inflM ix tm m a
        = snapshot pa ageNow inflM ix m a # ?La"
    using Suc.prems(1)
  proof (cases rule: loop_cases [of m months pa ageNow r inflM ix tm a])
    case last
    with lt show ?thesis by simp
  next
    case trunc
    with Suc.prems(3) Suc.hyps(2) show ?thesis by simp
  next
    case step
    then show ?thesis by simp
  qed
  have B: "isFinite (advance tm r b ?cb) \<and>
      simulateProjection_loop pb months ageNow r inflM ix tm m b
        = snapshot pb ageNow inflM ix m b # ?Lb"
    using Suc.prems(1)
  proof (cases rule: loop_cases [of m months pb ageNow r inflM ix tm b])
    case last
    with lt show ?thesis by simp
  next
    case trunc
    with Suc.prems(4) Suc.hyps(2) show ?thesis by simp
  next
    case step
    then show ?thesis by simp
  qed
  have lenA: "length ?La = nat (months - int (Suc m)) + 1"
    using Suc.prems(3) A Suc.hyps(2) n by simp
  have lenB: "length ?Lb = nat (months - int (Suc m)) + 1"
    using Suc.prems(4) B Suc.hyps(2) n by simp
  have fca: "isFinite ?ca" and fcb: "isFinite ?cb"
    using A B advance_finite by blast+
  have cle: "jle ?ca ?cb" using p c fca fcb by (rule contribution_mono)
  have ale: "jle (advance tm r a ?ca) (advance tm r b ?cb)"
    using k Suc.prems(2) cle A B by (intro advance_mono) simp_all
  have IH: "jle (balanceReal (last ?La)) (balanceReal (last ?Lb))"
    using Suc.hyps(1) [OF n le' ale lenA lenB] .
  have neA: "?La \<noteq> []" and neB: "?Lb \<noteq> []" using lenA lenB by auto
  show ?case using IH A B neA neB by simp
qed


text \<open>
  C1 (as amended). For fixed \<open>pvToday\<close> (not \<open>NaN\<close>), \<open>months \<ge> 0\<close>, \<open>ageNow\<close>,
  indexation and timing, with \<open>realMonthlyRate \<ge> -1\<close> and, under \<open>fixedNominal\<close>,
  \<open>inflationMonthlyRate > -1\<close>: when neither of the two simulations is truncated
  (both trajectories have \<open>months + 1\<close> points), \<open>pmt0a \<le> pmt0b\<close> implies that the
  final real balance with \<open>pmt0a\<close> is at most the final real balance with \<open>pmt0b\<close>.
\<close>

theorem finalBalanceReal_mono:
  assumes "0 \<le> months" and "\<not> isNaN pvToday"
    and "jle (Fin (- 1)) r"
    and "ix = inflationAdjusted \<or> jlt (Fin (- 1)) inflM"
    and "jle pmt0a pmt0b"
    and "length (simulateProjection pvToday pmt0a months ageNow r inflM ix tm) = nat months + 1"
    and "length (simulateProjection pvToday pmt0b months ageNow r inflM ix tm) = nat months + 1"
  shows "jle (finalBalanceReal pvToday pmt0a months ageNow r inflM ix tm)
             (finalBalanceReal pvToday pmt0b months ageNow r inflM ix tm)"
proof -
  have k: "jle (Fin 0) (jadd (Fin 1) r)" using assms(3) by (cases r) simp_all
  have c: "ix = inflationAdjusted \<or> jlt (Fin 0) (jadd (Fin 1) inflM)"
    using assms(4) by (cases inflM) auto
  have s: "jle (jmax (Fin 0) pvToday) (jmax (Fin 0) pvToday)"
    using assms(2) by (cases pvToday) (simp_all add: jmax_def)
  have "jle (balanceReal (last (simulateProjection pvToday pmt0a months ageNow r inflM ix tm)))
            (balanceReal (last (simulateProjection pvToday pmt0b months ageNow r inflM ix tm)))"
    unfolding simulateProjection_def
    using assms(1,6,7) s
    by (intro loop_mono [OF k c assms(5)]) (simp_all add: simulateProjection_def)
  then show ?thesis using assms(1) by (simp add: finalBalanceReal_last)
qed

lemma sim_small_example:
  "simulateProjection (Fin 1000) (Fin 100) 2 (Fin 30) (Fin (1 / 100)) (Fin 1) fixedNominal Begin
     = [snapshot (Fin 100) (Fin 30) (Fin 1) fixedNominal 0 (Fin 1000),
        snapshot (Fin 100) (Fin 30) (Fin 1) fixedNominal 1 (Fin 1111),
        snapshot (Fin 100) (Fin 30) (Fin 1) fixedNominal 2 (Fin (117261 / 100))]"
  by (simp add: simulateProjection_def jmax_def loop_unfold advance_def
        contributionReal_snapshot jpow_Fin numeral_2_eq_2)

lemma sim_large_example:
  "simulateProjection (Fin 1000) (Fin 500) 2 (Fin 30) (Fin (1 / 100)) (Fin 1) fixedNominal Begin
     = [snapshot (Fin 500) (Fin 30) (Fin 1) fixedNominal 0 (Fin 1000),
        snapshot (Fin 500) (Fin 30) (Fin 1) fixedNominal 1 (Fin 1515),
        snapshot (Fin 500) (Fin 30) (Fin 1) fixedNominal 2 (Fin (178265 / 100))]"
  by (simp add: simulateProjection_def jmax_def loop_unfold advance_def
        contributionReal_snapshot jpow_Fin numeral_2_eq_2)

theorem finalBalanceReal_mono_witness:
  "(0::int) \<le> 2 \<and> \<not> isNaN (Fin 1000) \<and> jle (Fin (- 1)) (Fin (1 / 100))
   \<and> jlt (Fin (- 1)) (Fin 1) \<and> jle (Fin 100) (Fin 500)
   \<and> length (simulateProjection (Fin 1000) (Fin 100) 2 (Fin 30) (Fin (1 / 100)) (Fin 1)
        fixedNominal Begin) = nat 2 + 1
   \<and> length (simulateProjection (Fin 1000) (Fin 500) 2 (Fin 30) (Fin (1 / 100)) (Fin 1)
        fixedNominal Begin) = nat 2 + 1
   \<and> jle (finalBalanceReal (Fin 1000) (Fin 100) 2 (Fin 30) (Fin (1 / 100)) (Fin 1)
            fixedNominal Begin)
          (finalBalanceReal (Fin 1000) (Fin 500) 2 (Fin 30) (Fin (1 / 100)) (Fin 1)
            fixedNominal Begin)"
proof -
  have h1: "(0::int) \<le> 2" and h2: "\<not> isNaN (Fin 1000)" and h3: "jle (Fin (- 1)) (Fin (1 / 100))"
    and h4: "fixedNominal = inflationAdjusted \<or> jlt (Fin (- 1)) (Fin 1)"
    and h5: "jle (Fin 100) (Fin 500)"
    by simp_all
  have h6: "length (simulateProjection (Fin 1000) (Fin 100) 2 (Fin 30) (Fin (1 / 100)) (Fin 1)
        fixedNominal Begin) = nat 2 + 1"
    unfolding sim_small_example by simp
  have h7: "length (simulateProjection (Fin 1000) (Fin 500) 2 (Fin 30) (Fin (1 / 100)) (Fin 1)
        fixedNominal Begin) = nat 2 + 1"
    unfolding sim_large_example by simp
  from finalBalanceReal_mono [OF h1 h2 h3 h4 h5 h6 h7] h1 h2 h3 h4 h5 h6 h7
  show ?thesis by simp
qed

text \<open>
  With a real monthly rate of \<open>-2\<close> and begin timing the factor \<open>1 + r\<close> is \<open>-1\<close>:
  after one month the contribution 0 leaves the balance 0 and the contribution 1
  leaves \<open>-1\<close>.
\<close>

theorem finalBalanceReal_mono_counterexample:
  "jle (Fin 0) (Fin 1)
   \<and> \<not> jle (finalBalanceReal (Fin 0) (Fin 0) 1 (Fin 30) (Fin (- 2)) (Fin 0)
              inflationAdjusted Begin)
           (finalBalanceReal (Fin 0) (Fin 1) 1 (Fin 30) (Fin (- 2)) (Fin 0)
              inflationAdjusted Begin)"
  by (simp add: finalBalanceReal_def simulateProjection_def jmax_def loop_unfold
        advance_def contributionReal_snapshot Let_def)

end
